theory Spec2Isabelle
  imports Complex_Main "HOL-Library.Sublist"
begin

section \<open>Echo-System: fusion scorer and telemetry preprocessing\<close>

text \<open>
  A shallow embedding of \<^verbatim>\<open>fusion/fusion.py\<close>, \<^verbatim>\<open>api/app/services/predict.py\<close>,
  \<^verbatim>\<open>api/preprocessing/preprocess.py\<close> with its \<^verbatim>\<open>config.py\<close>, and the \<^verbatim>\<open>risk_level\<close>
  helper of \<^verbatim>\<open>test_fusion_demo.py\<close>.

  Conventions of the model:
  \<^item> Python floats are HOL reals: rounding, infinities and the float32 conversion of
    \<^verbatim>\<open>np.array(..., dtype=np.float32)\<close> are not represented. A cell that may be NaN
    (a missing reading, a missing statistic) is a \<^typ>\<open>real option\<close> with \<open>None\<close> for NaN.
  \<^item> An exception is a value \<open>Inl e\<close> of a sum type; \<open>str\<close> gives its message. The
    messages of library exceptions are abbreviated.
  \<^item> The module globals of \<^verbatim>\<open>fusion.py\<close> (the cached handles) are a record passed in
    and returned updated; the artifact files are a second record, read only.
  \<^item> The three predictors are parameters: functions that return a number or raise.
  \<^item> The numpy, pandas and scikit-learn operations the code calls (array conversion,
    stacking, rolling statistics, imputer and scaler) are modelled from their documented
    behaviour, each next to the function that calls it.
\<close>

subsection \<open>Exceptions and dictionary values\<close>

datatype error =
    ValueError string
  | AttributeError string
  | IndexError string
  | TypeError string
  | RuntimeError string
  | OtherError string

fun str :: "error \<Rightarrow> string" where
  "str (ValueError m) = m"
| "str (AttributeError m) = m"
| "str (IndexError m) = m"
| "str (TypeError m) = m"
| "str (RuntimeError m) = m"
| "str (OtherError m) = m"

datatype pyval = Num real | Str string

text \<open>A response is a Python dict with string keys, kept in insertion order.\<close>

type_synonym response = "(string \<times> pyval) list"

definition keys :: "response \<Rightarrow> string list" where
  "keys d = map fst d"

subsection \<open>Arrays, predictor handles, artifacts\<close>

text \<open>
  A two-dimensional array is the list of its rows. Every array below is built by
  \<open>np_array\<close>, \<open>vstack\<close> or a slice of an array with more than 60 rows, so it is
  rectangular; the empty list stands for the one-dimensional array \<^verbatim>\<open>np.array([])\<close>
  of shape \<^verbatim>\<open>(0,)\<close>.
\<close>

type_synonym ndarray = "real list list"

text \<open>
  \<open>lstm_model\<close>: \<^verbatim>\<open>float(np.squeeze(model.predict(w, verbose=0)))\<close> of the loaded Keras model.
  \<open>ae_model\<close>: \<^verbatim>\<open>ae.predict(w, verbose=0)\<close>, the reconstruction.
  \<open>rf_model\<close>: \<^verbatim>\<open>rf.predict_proba(X)[0, 1]\<close> on the single feature row of \<open>X\<close>.
\<close>

type_synonym lstm_model = "ndarray \<Rightarrow> error + real"
type_synonym ae_model = "ndarray \<Rightarrow> error + ndarray"
type_synonym rf_model = "real list \<Rightarrow> error + real"

text \<open>
  The fitted \<^verbatim>\<open>SimpleImputer\<close>: \<^verbatim>\<open>statistics_\<close>, one entry per column seen at fit
  (\<open>None\<close> when the column had no observed value). The fitted \<^verbatim>\<open>RobustScaler\<close>:
  \<^verbatim>\<open>center_\<close> and \<^verbatim>\<open>scale_\<close>.
\<close>

record imputer =
  statistics :: "real option list"

record scaler =
  center :: "real list"
  scale :: "real list"

text \<open>
  What \<^verbatim>\<open>load_model\<close> and \<^verbatim>\<open>joblib.load\<close> give for each path: \<open>None\<close> when the
  call raises, the loaded object otherwise.
\<close>

record files =
  lstm_file :: "lstm_model option"
  ae_file :: "ae_model option"
  rf_file :: "rf_model option"
  imputer_file :: "imputer option"
  scaler_file :: "scaler option"

text \<open>The module globals \<^verbatim>\<open>_lstm, _ae, _rf, _imputer, _scaler\<close>; \<open>None\<close> is Python's None.\<close>

record globals =
  g_lstm :: "lstm_model option"
  g_ae :: "ae_model option"
  g_rf :: "rf_model option"
  g_imputer :: "imputer option"
  g_scaler :: "scaler option"

definition initial_globals :: globals where
  "initial_globals =
     \<lparr>g_lstm = None, g_ae = None, g_rf = None, g_imputer = None, g_scaler = None\<rparr>"

subsection \<open>fusion.py\<close>

definition W_LSTM :: real where "W_LSTM = 0.6"
definition W_RF :: real where "W_RF = 0.3"
definition W_AE :: real where "W_AE = 0.1"

type_synonym handles =
  "lstm_model option \<times> ae_model option \<times> rf_model option \<times> imputer option \<times> scaler option"

text \<open>
  \<^verbatim>\<open>load_all\<close>: each global that is still None is loaded in turn. A load that raises
  leaves the assignments made so far in place and the handler returns
  \<^verbatim>\<open>None, None, _rf, _imputer, _scaler\<close>. A load never returns None, so a global that
  is None after its step means the step raised.
\<close>

definition load_failed :: "globals \<Rightarrow> handles \<times> globals" where
  "load_failed g = ((None, None, g_rf g, g_imputer g, g_scaler g), g)"

definition load_all :: "files \<Rightarrow> globals \<Rightarrow> handles \<times> globals" where
  "load_all fs g0 =
     (let g1 = (if g_lstm g0 = None then g0\<lparr>g_lstm := lstm_file fs\<rparr> else g0) in
      if g_lstm g1 = None then load_failed g1 else
      let g2 = (if g_ae g1 = None then g1\<lparr>g_ae := ae_file fs\<rparr> else g1) in
      if g_ae g2 = None then load_failed g2 else
      let g3 = (if g_rf g2 = None then g2\<lparr>g_rf := rf_file fs\<rparr> else g2) in
      if g_rf g3 = None then load_failed g3 else
      let g4 = (if g_imputer g3 = None then g3\<lparr>g_imputer := imputer_file fs\<rparr> else g3) in
      if g_imputer g4 = None then load_failed g4 else
      let g5 = (if g_scaler g4 = None then g4\<lparr>g_scaler := scaler_file fs\<rparr> else g4) in
      if g_scaler g5 = None then load_failed g5 else
      ((g_lstm g5, g_ae g5, g_rf g5, g_imputer g5, g_scaler g5), g5))"

definition none_has_no_predict :: error where
  "none_has_no_predict = AttributeError ''NoneType object has no attribute predict''"

text \<open>
  \<^verbatim>\<open>lstm_predict_prob\<close>. The window is two-dimensional here, so \<^verbatim>\<open>w[None, ...]\<close> only
  adds the batch axis the handle expects. \<^verbatim>\<open>model.predict\<close> on None raises AttributeError.
\<close>

definition lstm_predict_prob :: "files \<Rightarrow> globals \<Rightarrow> ndarray \<Rightarrow> (error + real) \<times> globals" where
  "lstm_predict_prob fs g window =
     (case load_all fs g of
        ((model, _), g') \<Rightarrow>
          (case model of
             None \<Rightarrow> (Inl none_has_no_predict, g')
           | Some m \<Rightarrow> (m window, g')))"

text \<open>
  \<^verbatim>\<open>np.mean((w - recon)**2, axis=(1,2))[0]\<close> for a reconstruction of the window's shape.
  Broadcasting between different shapes is not modelled: it is a ValueError here. For an
  array without cells numpy gives NaN; the model has the real \<open>0 / 0 = 0\<close> in its place.
\<close>

definition same_shape :: "ndarray \<Rightarrow> ndarray \<Rightarrow> bool" where
  "same_shape a b = (map length a = map length b)"

definition mse :: "ndarray \<Rightarrow> ndarray \<Rightarrow> real" where
  "mse w recon =
     sum_list (map (\<lambda>(x, y). (x - y)\<^sup>2) (zip (concat w) (concat recon)))
       / real (length (concat w))"

definition ae_anomaly_score :: "files \<Rightarrow> globals \<Rightarrow> ndarray \<Rightarrow> (error + real) \<times> globals" where
  "ae_anomaly_score fs g window =
     (case load_all fs g of
        ((_, ae, _), g') \<Rightarrow>
          (case ae of
             None \<Rightarrow> (Inl none_has_no_predict, g')
           | Some m \<Rightarrow>
               (case m window of
                  Inl e \<Rightarrow> (Inl e, g')
                | Inr recon \<Rightarrow>
                    if same_shape window recon then (Inr (mse window recon), g')
                    else (Inl (ValueError ''operands could not be broadcast together''), g'))))"

definition sensor_names :: "string list" where
  "sensor_names = [''temperature'', ''vibration'', ''rpm'', ''humidity'']"

definition stat_names :: "string list" where
  "stat_names = [''mean'', ''std'', ''min'', ''max'', ''median'']"

text \<open>The nested loop of \<^verbatim>\<open>rf_prob_failure\<close> that appends \<^verbatim>\<open>f"{sensor}_{stat}"\<close>.\<close>

definition feature_names :: "string list" where
  "feature_names =
     concat (map (\<lambda>sensor. map (\<lambda>stat. sensor @ ''_'' @ stat) stat_names) sensor_names)"

text \<open>\<^verbatim>\<open>agg_row\<close> is a dict of numbers; \<^verbatim>\<open>agg_row.get(feat_name, 0.0)\<close>.\<close>

type_synonym agg_row = "string \<rightharpoonup> real"

definition dict_get :: "agg_row \<Rightarrow> string \<Rightarrow> real \<Rightarrow> real" where
  "dict_get d k dflt = (case d k of None \<Rightarrow> dflt | Some v \<Rightarrow> v)"

definition feature_vector :: "agg_row \<Rightarrow> real list" where
  "feature_vector agg = map (\<lambda>feat_name. dict_get agg feat_name 0.0) feature_names"

text \<open>
  \<^verbatim>\<open>rf_prob_failure\<close>: 0.5 when the handle is None, 0.5 when \<^verbatim>\<open>predict_proba\<close> raises.
\<close>

definition rf_prob_failure :: "files \<Rightarrow> globals \<Rightarrow> agg_row \<Rightarrow> real \<times> globals" where
  "rf_prob_failure fs g agg =
     (case load_all fs g of
        ((_, _, rf, _), g') \<Rightarrow>
          (case rf of
             None \<Rightarrow> (0.5, g')
           | Some m \<Rightarrow>
               (case m (feature_vector agg) of
                  Inl e \<Rightarrow> (0.5, g')
                | Inr prob \<Rightarrow> (prob, g'))))"

text \<open>Line 109 and line 112 of \<^verbatim>\<open>fusion.py\<close>, named so that they can be evaluated alone.\<close>

definition ae_scaled_of :: "real \<Rightarrow> real" where
  "ae_scaled_of ae_score = 1 / (1 + exp (- (ae_score - 0.01) * 100))"

definition fused_of :: "real \<Rightarrow> real \<Rightarrow> real \<Rightarrow> real" where
  "fused_of p_lstm health_score ae_scaled =
     W_LSTM * p_lstm + W_RF * (1 - health_score) + W_AE * ae_scaled"

definition predict_fusion ::
  "files \<Rightarrow> globals \<Rightarrow> ndarray \<Rightarrow> agg_row \<Rightarrow> (error + response) \<times> globals" where
  "predict_fusion fs g window agg =
     (case lstm_predict_prob fs g window of
        (Inl e, g1) \<Rightarrow> (Inl e, g1)
      | (Inr p_lstm, g1) \<Rightarrow>
          (case rf_prob_failure fs g1 agg of
             (p_rf, g2) \<Rightarrow>
               (case ae_anomaly_score fs g2 window of
                  (Inl e, g3) \<Rightarrow> (Inl e, g3)
                | (Inr ae_score, g3) \<Rightarrow>
                    (let ae_scaled = ae_scaled_of ae_score;
                         health_score = 1.0 - p_rf;
                         fused = fused_of p_lstm health_score ae_scaled
                     in (Inr [(''failure_prob_lstm'', Num p_lstm),
                              (''prob_failure_rf'', Num p_rf),
                              (''ae_score'', Num ae_score),
                              (''ae_scaled'', Num ae_scaled),
                              (''health_score'', Num health_score),
                              (''fused_risk'', Num fused)], g3)))))"

subsection \<open>test\_fusion\_demo.py: risk\_level\<close>

datatype level = LOW | MEDIUM | HIGH

text \<open>The second component of the returned pair is the coloured-circle emoji.\<close>

datatype icon = GREEN_CIRCLE | YELLOW_CIRCLE | RED_CIRCLE

definition risk_level :: "real \<Rightarrow> level \<times> icon" where
  "risk_level risk_score =
     (if risk_score < 0.3 then (LOW, GREEN_CIRCLE)
      else if risk_score < 0.6 then (MEDIUM, YELLOW_CIRCLE)
      else (HIGH, RED_CIRCLE))"

subsection \<open>services/predict.py\<close>

text \<open>
  \<^verbatim>\<open>np.array(window_data, dtype=np.float32)\<close> for a list of lists of numbers: ragged
  rows raise ValueError.
\<close>

definition inhomogeneous_error :: error where
  "inhomogeneous_error = ValueError ''setting an array element with a sequence''"

definition np_array :: "real list list \<Rightarrow> error + ndarray" where
  "np_array window_data =
     (case window_data of
        [] \<Rightarrow> Inr []
      | r # rs \<Rightarrow>
          if list_all (\<lambda>x. length x = length r) rs then Inr window_data
          else Inl inhomogeneous_error)"

text \<open>\<^verbatim>\<open>window_array.shape != (60, 4)\<close>, negated.\<close>

definition shape_is_60_4 :: "ndarray \<Rightarrow> bool" where
  "shape_is_60_4 a = (length a = 60 \<and> list_all (\<lambda>r. length r = 4) a)"

text \<open>
  \<^verbatim>\<open>np.vstack([padding, window_array])\<close> with a padding of four columns: the second
  operand's column count must be four (the one-dimensional empty array counts as one
  row without columns).
\<close>

definition ncols :: "ndarray \<Rightarrow> nat" where
  "ncols a = (case a of [] \<Rightarrow> 0 | r # _ \<Rightarrow> length r)"

definition vstack_error :: error where
  "vstack_error =
     ValueError ''all the input array dimensions except for the concatenation axis must match exactly''"

definition vstack :: "ndarray \<Rightarrow> ndarray \<Rightarrow> error + ndarray" where
  "vstack padding window_array =
     (if ncols window_array = 4 then Inr (padding @ window_array)
      else Inl vstack_error)"

text \<open>Lines 45 to 57 of \<^verbatim>\<open>predict.py\<close>: conversion and the pad-or-truncate block.\<close>

definition adapt_window :: "real list list \<Rightarrow> error + ndarray" where
  "adapt_window window_data =
     (case np_array window_data of
        Inl e \<Rightarrow> Inl e
      | Inr window_array \<Rightarrow>
          if \<not> shape_is_60_4 window_array then
            (if length window_array < 60 then
               vstack (replicate (60 - length window_array) (replicate 4 0)) window_array
             else if length window_array > 60 then
               Inr (drop (length window_array - 60) window_array)
             else Inr window_array)
          else Inr window_array)"

definition fusion_unavailable :: response where
  "fusion_unavailable =
     [(''error'', Str ''Fusion model not available''),
      (''failure_prob_lstm'', Num 0.5),
      (''prob_failure_rf'', Num 0.5),
      (''ae_score'', Num 0.5),
      (''ae_scaled'', Num 0.5),
      (''health_score'', Num 0.5),
      (''fused_risk'', Num 0.5)]"

definition safe_defaults :: "error \<Rightarrow> response" where
  "safe_defaults e =
     [(''error'', Str (str e)),
      (''failure_prob_lstm'', Num 0.5),
      (''prob_failure_rf'', Num 0.5),
      (''ae_score'', Num 1.0),
      (''ae_scaled'', Num 0.5),
      (''health_score'', Num 0.5),
      (''fused_risk'', Num 0.5)]"

text \<open>
  \<^verbatim>\<open>predict_from_window_and_agg\<close>. \<open>imported\<close> says whether
  \<^verbatim>\<open>from fusion.fusion import predict_fusion\<close> succeeded (otherwise the name is None).
  The result type keeps the exception branch that the \<^verbatim>\<open>try\<close> block closes.
\<close>

definition predict_from_window_and_agg ::
  "bool \<Rightarrow> files \<Rightarrow> globals \<Rightarrow> real list list \<Rightarrow> agg_row \<Rightarrow> (error + response) \<times> globals" where
  "predict_from_window_and_agg imported fs g window_data agg_data =
     (if \<not> imported then (Inr fusion_unavailable, g)
      else
        (case adapt_window window_data of
           Inl e \<Rightarrow> (Inr (safe_defaults e), g)
         | Inr window_array \<Rightarrow>
             (case predict_fusion fs g window_array agg_data of
                (Inl e, g') \<Rightarrow> (Inr (safe_defaults e), g')
              | (Inr result, g') \<Rightarrow> (Inr result, g'))))"

subsection \<open>preprocessing/config.py\<close>

definition WINDOW_SIZE :: nat where "WINDOW_SIZE = 60"
definition MIN_VALID_RATIO :: real where "MIN_VALID_RATIO = 0.8"

definition AGG_FEATURES :: "string list" where
  "AGG_FEATURES = [''temperature'', ''vibration'', ''rpm'', ''humidity'']"

subsection \<open>preprocessing/preprocess.py: the resampled frame of one device\<close>

text \<open>
  One row of the frame that \<^verbatim>\<open>resample_device\<close> and \<^verbatim>\<open>interpolate_and_limit\<close> produce:
  the four channel means of a bin (\<open>None\<close> for NaN), the device identity and the bin's
  label. \<open>has_label\<close> says whether the frame has a \<^verbatim>\<open>label\<close> column at all; without it
  the \<open>label\<close> fields are not read. The frame's index is the range index that
  \<^verbatim>\<open>reset_index\<close> left.
\<close>

record bin =
  temperature :: "real option"
  vibration :: "real option"
  rpm :: "real option"
  humidity :: "real option"
  device_id :: string
  device_type :: string
  label :: int

record frame =
  rows :: "bin list"
  has_label :: bool

text \<open>\<^verbatim>\<open>df_device[AGG_FEATURES].values\<close>: one list of four cells per bin.\<close>

definition cells :: "bin \<Rightarrow> real option list" where
  "cells b = [temperature b, vibration b, rpm b, humidity b]"

definition feature_values :: "frame \<Rightarrow> real option list list" where
  "feature_values df = map cells (rows df)"

text \<open>
  \<^verbatim>\<open>df_device["label"].values if "label" in df_device.columns else np.zeros(len(df_device))\<close>
\<close>

definition label_values :: "frame \<Rightarrow> int list" where
  "label_values df =
     (if has_label df then map label (rows df) else replicate (length (rows df)) 0)"

text \<open>The slice \<^verbatim>\<open>xs[a:b]\<close> for \<open>0 \<le> a \<le> b\<close>; it stops at the end of the list.\<close>

definition slice :: "'a list \<Rightarrow> nat \<Rightarrow> nat \<Rightarrow> 'a list" where
  "slice xs a b = take (b - a) (drop a xs)"

text \<open>\<^verbatim>\<open>ndarray.max()\<close>: a ValueError on an array without elements.\<close>

definition zero_size_error :: error where
  "zero_size_error =
     ValueError ''zero-size array to reduction operation maximum which has no identity''"

definition np_max :: "int list \<Rightarrow> error + int" where
  "np_max xs = (case xs of [] \<Rightarrow> Inl zero_size_error | x # r \<Rightarrow> Inr (fold max r x))"

text \<open>
  \<^verbatim>\<open>np.count_nonzero(~np.isnan(window)) / (window_size * window.shape[1])\<close>; the array has
  one column per name of \<open>AGG_FEATURES\<close>.
\<close>

definition count_valid :: "real option list list \<Rightarrow> nat" where
  "count_valid window = length (filter (\<lambda>c. c \<noteq> None) (concat window))"

definition valid_ratio :: "real option list list \<Rightarrow> nat \<Rightarrow> real" where
  "valid_ratio window window_size =
     real (count_valid window) / real (window_size * length AGG_FEATURES)"

type_synonym windows = "real option list list list"

text \<open>
  The loop of \<^verbatim>\<open>extract_windows\<close> over the remaining start offsets, with the two lists it
  appends to.
\<close>

fun extract_loop ::
  "real option list list \<Rightarrow> int list \<Rightarrow> nat \<Rightarrow> real \<Rightarrow> nat list \<Rightarrow> windows \<times> int list
     \<Rightarrow> error + windows \<times> int list" where
  "extract_loop arr labels window_size min_valid_ratio [] acc = Inr acc"
| "extract_loop arr labels window_size min_valid_ratio (start # rest) (windows, win_labels) =
     (let window = slice arr start (start + window_size) in
      case np_max (slice labels start (start + window_size)) of
        Inl e \<Rightarrow> Inl e
      | Inr lab \<Rightarrow>
          if valid_ratio window window_size \<ge> min_valid_ratio
          then extract_loop arr labels window_size min_valid_ratio rest
                 (windows @ [window], win_labels @ [lab])
          else extract_loop arr labels window_size min_valid_ratio rest
                 (windows, win_labels))"

text \<open>
  \<^verbatim>\<open>extract_windows\<close>; \<^verbatim>\<open>range(0, n - window_size + 1)\<close> is empty when \<open>window_size > n + 1\<close>.
  The stacked array and the empty array of the two return statements are both the list
  of the kept windows.
\<close>

definition extract_windows :: "frame \<Rightarrow> nat \<Rightarrow> real \<Rightarrow> error + windows \<times> int list" where
  "extract_windows df_device window_size min_valid_ratio =
     (let arr = feature_values df_device;
          labels = label_values df_device;
          n = length arr
      in extract_loop arr labels window_size min_valid_ratio [0..<n + 1 - window_size] ([], []))"

subsection \<open>preprocess.py: aggregate\_features\<close>

text \<open>
  A pandas frame on the output side is the list of its columns, each a name and the
  list of its cells.
\<close>

datatype cell = FloatCell "real option" | IntCell int | TextCell string

type_synonym dataframe = "(string \<times> cell list) list"

text \<open>\<^verbatim>\<open>df_device[AGG_FEATURES]\<close>: the four channel columns, in the order of the list.\<close>

definition feature_columns :: "frame \<Rightarrow> (string \<times> real option list) list" where
  "feature_columns df =
     [(''temperature'', map temperature (rows df)),
      (''vibration'', map vibration (rows df)),
      (''rpm'', map rpm (rows df)),
      (''humidity'', map humidity (rows df))]"

text \<open>
  \<^verbatim>\<open>DataFrame.rolling(window, min_periods)\<close> on a range index: for row \<open>i\<close> the window is
  the rows \<open>i - window + 1\<close> to \<open>i\<close> that exist; a statistic is taken over the cells of the
  window that are not NaN, and it is NaN when there are fewer than \<open>min_periods\<close> of them.
\<close>

definition trailing :: "'a list \<Rightarrow> nat \<Rightarrow> nat \<Rightarrow> 'a list" where
  "trailing col window i = drop (Suc i - window) (take (Suc i) col)"

definition observed :: "real option list \<Rightarrow> real list" where
  "observed cs = concat (map (\<lambda>c. case c of None \<Rightarrow> [] | Some x \<Rightarrow> [x]) cs)"

definition rolling ::
  "nat \<Rightarrow> nat \<Rightarrow> (real list \<Rightarrow> real option) \<Rightarrow> real option list \<Rightarrow> real option list" where
  "rolling window min_periods stat col =
     map (\<lambda>i. let obs = observed (trailing col window i)
              in if length obs < min_periods then None else stat obs)
         [0..<length col]"

text \<open>
  The five statistics of the rolling object on the observed values of one window:
  \<^verbatim>\<open>mean\<close>, \<^verbatim>\<open>std\<close> (sample standard deviation, \<^verbatim>\<open>ddof=1\<close>), \<^verbatim>\<open>min\<close>, \<^verbatim>\<open>max\<close>, \<^verbatim>\<open>median\<close>.
\<close>

definition roll_mean :: "real list \<Rightarrow> real option" where
  "roll_mean xs = (if xs = [] then None else Some (sum_list xs / real (length xs)))"

definition roll_std :: "real list \<Rightarrow> real option" where
  "roll_std xs =
     (if length xs < 2 then None
      else let m = sum_list xs / real (length xs)
           in Some (sqrt (sum_list (map (\<lambda>x. (x - m)\<^sup>2) xs) / real (length xs - 1))))"

definition roll_min :: "real list \<Rightarrow> real option" where
  "roll_min xs = (case xs of [] \<Rightarrow> None | x # r \<Rightarrow> Some (fold min r x))"

definition roll_max :: "real list \<Rightarrow> real option" where
  "roll_max xs = (case xs of [] \<Rightarrow> None | x # r \<Rightarrow> Some (fold max r x))"

definition roll_median :: "real list \<Rightarrow> real option" where
  "roll_median xs =
     (if xs = [] then None
      else let s = sort xs; n = length s
           in Some (if odd n then s ! (n div 2)
                    else (s ! (n div 2 - 1) + s ! (n div 2)) / 2))"

text \<open>
  \<^verbatim>\<open>roll = df_device[AGG_FEATURES].rolling(window=WINDOW_SIZE, min_periods=int(WINDOW_SIZE*0.5))\<close>
  followed by one statistic, and \<^verbatim>\<open>add_suffix\<close> on the resulting frame.
\<close>

definition roll_frame ::
  "(real list \<Rightarrow> real option) \<Rightarrow> frame \<Rightarrow> (string \<times> real option list) list" where
  "roll_frame stat df =
     map (\<lambda>(name, col). (name, rolling WINDOW_SIZE (nat \<lfloor>real WINDOW_SIZE * 0.5\<rfloor>) stat col))
         (feature_columns df)"

definition add_suffix :: "string \<Rightarrow> (string \<times> real option list) list \<Rightarrow> dataframe" where
  "add_suffix sfx cols = map (\<lambda>(name, col). (name @ sfx, map FloatCell col)) cols"

definition out_of_bounds :: error where
  "out_of_bounds = IndexError ''single positional indexer is out-of-bounds''"

text \<open>
  \<^verbatim>\<open>aggregate_features\<close>. \<^verbatim>\<open>reset_index\<close> turns the range index into the column
  \<^verbatim>\<open>index\<close>; \<^verbatim>\<open>.iloc[0]\<close> raises IndexError on a frame without rows; a scalar assigned to
  a column fills every row.
\<close>

definition aggregate_features :: "frame \<Rightarrow> error + dataframe" where
  "aggregate_features df_device =
     (let n = length (rows df_device);
          agg = add_suffix ''_mean'' (roll_frame roll_mean df_device)
              @ add_suffix ''_std'' (roll_frame roll_std df_device)
              @ add_suffix ''_min'' (roll_frame roll_min df_device)
              @ add_suffix ''_max'' (roll_frame roll_max df_device)
              @ add_suffix ''_median'' (roll_frame roll_median df_device);
          agg = (''index'', map (\<lambda>i. IntCell (int i)) [0..<n]) # agg
      in case rows df_device of
           [] \<Rightarrow> Inl out_of_bounds
         | b # _ \<Rightarrow>
             Inr (agg @ [(''device_id'', replicate n (TextCell (device_id b))),
                         (''device_type'', replicate n (TextCell (device_type b))),
                         (''label'', map IntCell (label_values df_device))]))"

subsection \<open>The fitted transformers of scikit-learn\<close>

text \<open>
  \<^verbatim>\<open>SimpleImputer(strategy="median")\<close> and \<^verbatim>\<open>RobustScaler()\<close> are library code; they are
  modelled from their documented behaviour. A matrix is the list of its rows. Both
  reject a matrix without rows, and \<^verbatim>\<open>transform\<close> rejects a matrix whose number of columns
  is not the number seen at \<^verbatim>\<open>fit\<close>.
\<close>

definition n_features :: "'a list list \<Rightarrow> nat" where
  "n_features X = (case X of [] \<Rightarrow> 0 | r # _ \<Rightarrow> length r)"

definition columns :: "'a list list \<Rightarrow> 'a list list" where
  "columns X = map (\<lambda>j. map (\<lambda>r. r ! j) X) [0..<n_features X]"

definition min_samples_error :: error where
  "min_samples_error = ValueError ''Found array with 0 sample(s) while a minimum of 1 is required''"

definition feature_count_error :: error where
  "feature_count_error =
     ValueError ''X has a different number of features than the estimator is expecting as input''"

text \<open>
  \<^verbatim>\<open>fit\<close>: the median of the observed values of each column, NaN for a column without
  any. \<^verbatim>\<open>transform\<close>: a column whose statistic is NaN is dropped, a missing cell of any
  other column becomes the statistic.
\<close>

definition imputer_fit :: "real option list list \<Rightarrow> error + imputer" where
  "imputer_fit X =
     (if X = [] then Inl min_samples_error
      else Inr \<lparr>statistics = map (\<lambda>col. roll_median (observed col)) (columns X)\<rparr>)"

definition impute_row :: "real option list \<Rightarrow> real option list \<Rightarrow> real list" where
  "impute_row stats row =
     concat (map (\<lambda>(st, c). case st of None \<Rightarrow> []
                                       | Some m \<Rightarrow> [case c of None \<Rightarrow> m | Some x \<Rightarrow> x])
                 (zip stats row))"

definition imputer_transform :: "imputer \<Rightarrow> real option list list \<Rightarrow> error + real list list" where
  "imputer_transform imp X =
     (if X = [] then Inl min_samples_error
      else if n_features X \<noteq> length (statistics imp) then Inl feature_count_error
      else Inr (map (impute_row (statistics imp)) X))"

text \<open>
  \<^verbatim>\<open>np.percentile\<close> with linear interpolation, on a list that is not empty.
\<close>

definition percentile :: "real list \<Rightarrow> real \<Rightarrow> real" where
  "percentile xs q =
     (let s = sort xs; n = length s;
          pos = q / 100 * real (n - 1);
          lo = nat \<lfloor>pos\<rfloor>
      in if lo + 1 < n then s ! lo + (pos - real lo) * (s ! (lo + 1) - s ! lo) else s ! lo)"

text \<open>
  \<^verbatim>\<open>RobustScaler.fit\<close>: the centre is the median, the scale the interquartile range, a zero
  range being replaced by 1. \<^verbatim>\<open>transform\<close>: \<open>(x - centre) / scale\<close> column by column.
\<close>

definition scaler_fit :: "real list list \<Rightarrow> error + scaler" where
  "scaler_fit X =
     (if X = [] then Inl min_samples_error
      else Inr \<lparr>center = map (\<lambda>col. percentile col 50) (columns X),
                scale = map (\<lambda>col. let iqr = percentile col 75 - percentile col 25
                                    in if iqr = 0 then 1 else iqr) (columns X)\<rparr>)"

definition scaler_transform :: "scaler \<Rightarrow> real list list \<Rightarrow> error + real list list" where
  "scaler_transform sc X =
     (if X = [] then Inl min_samples_error
      else if n_features X \<noteq> length (center sc) then Inl feature_count_error
      else Inr (map (\<lambda>row. map (\<lambda>(x, c, s). (x - c) / s) (zip row (zip (center sc) (scale sc)))) X))"

subsection \<open>preprocess.py: main\<close>

text \<open>
  The loop of \<^verbatim>\<open>main\<close> over the devices. \<^verbatim>\<open>load_data\<close>, \<^verbatim>\<open>resample_device\<close> and
  \<^verbatim>\<open>interpolate_and_limit\<close> are not modelled: the input is the list of the resampled frames
  \<^verbatim>\<open>df_res\<close>, one per device. The accumulators are \<^verbatim>\<open>concat_for_scaler\<close>,
  \<^verbatim>\<open>all_windows\<close>, \<^verbatim>\<open>all_labels\<close> and \<^verbatim>\<open>agg_rows\<close>.
\<close>

type_synonym main_acc =
  "real option list list list \<times> windows list \<times> int list list \<times> dataframe list"

fun main_loop :: "frame list \<Rightarrow> main_acc \<Rightarrow> error + main_acc" where
  "main_loop [] acc = Inr acc"
| "main_loop (df_res # rest) (concat_for_scaler, all_windows, all_labels, agg_rows) =
     (case extract_windows df_res WINDOW_SIZE MIN_VALID_RATIO of
        Inl e \<Rightarrow> Inl e
      | Inr (windows, win_labels) \<Rightarrow>
          (case aggregate_features df_res of
             Inl e \<Rightarrow> Inl e
           | Inr agg \<Rightarrow>
               main_loop rest
                 (concat_for_scaler @ [feature_values df_res],
                  if windows \<noteq> [] then all_windows @ [windows] else all_windows,
                  if windows \<noteq> [] then all_labels @ [win_labels] else all_labels,
                  agg_rows @ [agg])))"

text \<open>\<^verbatim>\<open>reshape(nsamples, wlen, nfeat)\<close> of a matrix with \<open>nsamples * wlen\<close> rows.\<close>

definition cannot_reshape :: error where
  "cannot_reshape = ValueError ''cannot reshape array''"

fun chunks :: "nat \<Rightarrow> nat \<Rightarrow> 'a list \<Rightarrow> 'a list list" where
  "chunks 0 wlen xs = []"
| "chunks (Suc k) wlen xs = take wlen xs # chunks k wlen (drop wlen xs)"

definition reshape3 :: "nat \<Rightarrow> nat \<Rightarrow> nat \<Rightarrow> real list list \<Rightarrow> error + real list list list" where
  "reshape3 nsamples wlen nfeat X =
     (if length (concat X) = nsamples * wlen * nfeat then Inr (chunks nsamples wlen X)
      else Inl cannot_reshape)"

text \<open>
  \<^verbatim>\<open>pd.concat(agg_rows, axis=0, ignore_index=True)\<close>: the frames of \<open>aggregate_features\<close>
  all have the same columns in the same order, so the rows are appended column by column.
\<close>

definition append_rows :: "dataframe \<Rightarrow> dataframe \<Rightarrow> dataframe" where
  "append_rows a b = map (\<lambda>((name, col), (_, col')). (name, col @ col')) (zip a b)"

definition pd_concat :: "dataframe list \<Rightarrow> dataframe" where
  "pd_concat frames = (case frames of [] \<Rightarrow> [] | f # fs \<Rightarrow> fold (\<lambda>g acc. append_rows acc g) fs f)"

text \<open>The test \<^verbatim>\<open>s in c\<close> on strings.\<close>

fun contains :: "string \<Rightarrow> string \<Rightarrow> bool" where
  "contains s [] = (s = [])"
| "contains s (x # xs) = (prefix s (x # xs) \<or> contains s xs)"

text \<open>\<^verbatim>\<open>[c for c in agg_df.columns if any(s in c for s in AGG_FEATURES)]\<close>\<close>

definition numcols :: "dataframe \<Rightarrow> string list" where
  "numcols agg_df =
     filter (\<lambda>c. list_ex (\<lambda>s. contains s c) AGG_FEATURES) (map fst agg_df)"

text \<open>
  \<^verbatim>\<open>agg_df[numcols]\<close> as the matrix handed to \<^verbatim>\<open>transform\<close>: one row per row of the
  frame; a text cell cannot be converted to a float.
\<close>

definition cell_value :: "cell \<Rightarrow> error + real option" where
  "cell_value c =
     (case c of FloatCell x \<Rightarrow> Inr x
              | IntCell i \<Rightarrow> Inr (Some (real_of_int i))
              | TextCell t \<Rightarrow> Inl (ValueError ''could not convert string to float''))"

definition select_columns :: "dataframe \<Rightarrow> string list \<Rightarrow> dataframe" where
  "select_columns df names = filter (\<lambda>(name, col). name \<in> set names) df"

definition nrows :: "dataframe \<Rightarrow> nat" where
  "nrows df = (case df of [] \<Rightarrow> 0 | (_, col) # _ \<Rightarrow> length col)"

fun all_values :: "cell list \<Rightarrow> error + real option list" where
  "all_values [] = Inr []"
| "all_values (c # cs) =
     (case cell_value c of
        Inl e \<Rightarrow> Inl e
      | Inr v \<Rightarrow> (case all_values cs of Inl e \<Rightarrow> Inl e | Inr vs \<Rightarrow> Inr (v # vs)))"

fun frame_rows :: "dataframe \<Rightarrow> nat list \<Rightarrow> error + real option list list" where
  "frame_rows df [] = Inr []"
| "frame_rows df (i # is) =
     (case all_values (map (\<lambda>(name, col). col ! i) df) of
        Inl e \<Rightarrow> Inl e
      | Inr r \<Rightarrow> (case frame_rows df is of Inl e \<Rightarrow> Inl e | Inr rs \<Rightarrow> Inr (r # rs)))"

definition frame_values :: "dataframe \<Rightarrow> error + real option list list" where
  "frame_values df = frame_rows df [0..<nrows df]"

text \<open>
  \<^verbatim>\<open>agg_df[numcols] = M\<close> for a matrix with one column per name: the named columns take
  the columns of the matrix, in order; any other width is a ValueError.
\<close>

definition columns_mismatch :: error where
  "columns_mismatch = ValueError ''Columns must be same length as key''"

fun assign_columns :: "dataframe \<Rightarrow> string list \<Rightarrow> real list list \<Rightarrow> dataframe" where
  "assign_columns [] names cols = []"
| "assign_columns ((name, col) # rest) names [] = (name, col) # rest"
| "assign_columns ((name, col) # rest) names (c # cs) =
     (if name \<in> set names
      then (name, map (\<lambda>x. FloatCell (Some x)) c) # assign_columns rest names cs
      else (name, col) # assign_columns rest names (c # cs))"

definition set_columns :: "dataframe \<Rightarrow> string list \<Rightarrow> real list list \<Rightarrow> error + dataframe" where
  "set_columns df names M =
     (if n_features M = length names then Inr (assign_columns df names (columns M))
      else Inl columns_mismatch)"

definition no_data_error :: error where
  "no_data_error = RuntimeError ''No data loaded for scaler fitting''"

text \<open>
  \<^verbatim>\<open>main\<close> after the loop: the fit, the transform of the windows, the transform of the
  aggregates. The writes to the artifact directory are not modelled; the result is what
  is saved as \<^verbatim>\<open>windows.npy\<close>, \<^verbatim>\<open>labels.npy\<close> and \<^verbatim>\<open>aggregates.csv\<close>. The second read of
  \<^verbatim>\<open>agg_df[numcols]\<close> gives the matrix just assigned.
\<close>

definition main :: "frame list \<Rightarrow> error + real list list list \<times> int list \<times> dataframe" where
  "main devices =
     (case main_loop devices ([], [], [], []) of
        Inl e \<Rightarrow> Inl e
      | Inr (concat_for_scaler, all_windows, all_labels, agg_rows) \<Rightarrow>
          if concat_for_scaler = [] then Inl no_data_error
          else
            (let concat_df = concat concat_for_scaler in
             case imputer_fit concat_df of Inl e \<Rightarrow> Inl e | Inr imputer \<Rightarrow>
             case imputer_transform imputer concat_df of Inl e \<Rightarrow> Inl e | Inr concat_imp \<Rightarrow>
             case scaler_fit concat_imp of Inl e \<Rightarrow> Inl e | Inr scaler \<Rightarrow>
             (let windows_arr = concat all_windows;
                  labels_arr = concat all_labels;
                  nsamples = length windows_arr;
                  wlen = WINDOW_SIZE;
                  nfeat = length AGG_FEATURES;
                  windows_reshaped = concat windows_arr in
              case imputer_transform imputer windows_reshaped of Inl e \<Rightarrow> Inl e | Inr windows_imp \<Rightarrow>
              case scaler_transform scaler windows_imp of Inl e \<Rightarrow> Inl e | Inr windows_scaled \<Rightarrow>
              case reshape3 nsamples wlen nfeat windows_scaled of Inl e \<Rightarrow> Inl e | Inr windows_scaled \<Rightarrow>
              (let agg_df = pd_concat agg_rows;
                   numcols = numcols agg_df in
               case frame_values (select_columns agg_df numcols) of Inl e \<Rightarrow> Inl e | Inr X \<Rightarrow>
               case imputer_transform imputer X of Inl e \<Rightarrow> Inl e | Inr X_imp \<Rightarrow>
               case set_columns agg_df numcols X_imp of Inl e \<Rightarrow> Inl e | Inr agg_df \<Rightarrow>
               case scaler_transform scaler X_imp of Inl e \<Rightarrow> Inl e | Inr X_scaled \<Rightarrow>
               case set_columns agg_df numcols X_scaled of Inl e \<Rightarrow> Inl e | Inr agg_df \<Rightarrow>
               Inr (windows_scaled, labels_arr, agg_df)))))"

subsection \<open>Notions used in the proofs about main\<close>

text \<open>
  The column names of the frame of \<open>aggregate_features\<close>, a cell that holds a float, and
  what the loop of \<open>main\<close> keeps true of its accumulators.
\<close>

definition agg_names :: "string list" where
  "agg_names =
     [''index'',
      ''temperature_mean'', ''vibration_mean'', ''rpm_mean'', ''humidity_mean'',
      ''temperature_std'', ''vibration_std'', ''rpm_std'', ''humidity_std'',
      ''temperature_min'', ''vibration_min'', ''rpm_min'', ''humidity_min'',
      ''temperature_max'', ''vibration_max'', ''rpm_max'', ''humidity_max'',
      ''temperature_median'', ''vibration_median'', ''rpm_median'', ''humidity_median'',
      ''device_id'', ''device_type'', ''label'']"

definition loop_inv :: "main_acc \<Rightarrow> bool" where
  "loop_inv acc =
     (case acc of (concat_for_scaler, all_windows, all_labels, agg_rows) \<Rightarrow>
        length concat_for_scaler = length agg_rows
        \<and> list_all (\<lambda>a. map fst a = agg_names) agg_rows
        \<and> list_all (\<lambda>m. m \<noteq> [] \<and> list_all (\<lambda>r. length r = 4) m) concat_for_scaler)"

definition is_float :: "cell \<Rightarrow> bool" where
  "is_float c = (case c of FloatCell x \<Rightarrow> True | _ \<Rightarrow> False)"

section \<open>Example inputs\<close>

text \<open>The globals once every artifact has been loaded from \<open>fs\<close>.\<close>

definition loaded :: "files \<Rightarrow> globals" where
  "loaded fs = \<lparr>g_lstm = lstm_file fs, g_ae = ae_file fs, g_rf = rf_file fs,
                g_imputer = imputer_file fs, g_scaler = scaler_file fs\<rparr>"

definition demo_files :: files where
  "demo_files = \<lparr>lstm_file = Some (\<lambda>w. Inr 1), ae_file = Some (\<lambda>w. Inr w), rf_file = Some (\<lambda>x. Inr 0),
            imputer_file = Some \<lparr>statistics = []\<rparr>, scaler_file = Some \<lparr>center = [], scale = []\<rparr>\<rparr>"

definition demo_window :: ndarray where
  "demo_window = [[25, 0.3, 1500, 60]]"

definition demo_agg :: agg_row where
  "demo_agg = [''temperature_mean'' \<mapsto> 25.5]"

definition demo_response :: response where
  "demo_response =
     [(''failure_prob_lstm'', Num 1), (''prob_failure_rf'', Num 0), (''ae_score'', Num 0),
      (''ae_scaled'', Num (ae_scaled_of 0)), (''health_score'', Num 1),
      (''fused_risk'', Num (fused_of 1 1 (ae_scaled_of 0)))]"

definition no_lstm_files :: files where
  "no_lstm_files = demo_files\<lparr>lstm_file := None, rf_file := Some (\<lambda>x. Inr 0.9)\<rparr>"

definition ragged_window :: "real list list" where
  "ragged_window = [[1, 2, 3, 4], [1, 2]]"


definition demo_bin :: bin where
  "demo_bin = \<lparr>temperature = Some 25, vibration = Some 0.3, rpm = Some 1500, humidity = Some 60,
               device_id = ''pump_alpha'', device_type = ''pump'', label = 0\<rparr>"

definition gap_bin :: bin where
  "gap_bin = \<lparr>temperature = None, vibration = None, rpm = None, humidity = None,
              device_id = ''pump_alpha'', device_type = ''pump'', label = 2\<rparr>"

definition demo_frame :: frame where
  "demo_frame = \<lparr>rows = [demo_bin, demo_bin, gap_bin, demo_bin], has_label = True\<rparr>"

definition sixty_frame :: frame where
  "sixty_frame = \<lparr>rows = replicate 60 demo_bin, has_label = True\<rparr>"

definition sixty_imputer :: imputer where
  "sixty_imputer = \<lparr>statistics = [Some 25, Some 0.3, Some 1500, Some 60]\<rparr>"

definition sixty_imputed :: "real list list" where
  "sixty_imputed = replicate 60 [25, 0.3, 1500, 60]"

definition sixty_scaler :: scaler where
  "sixty_scaler = \<lparr>center = [25, 0.3, 1500, 60], scale = [1, 1, 1, 1]\<rparr>"

definition sixty_scaled :: "real list list" where
  "sixty_scaled = replicate 60 [0, 0, 0, 0]"

definition graded_files :: files where
  "graded_files = demo_files\<lparr>lstm_file := Some (\<lambda>w. Inr 0.2), rf_file := Some (\<lambda>x. Inr 0.7)\<rparr>"

definition graded_response :: response where
  "graded_response =
     [(''failure_prob_lstm'', Num 0.2), (''prob_failure_rf'', Num 0.7), (''ae_score'', Num 0),
      (''ae_scaled'', Num (1 / (1 + exp 1))), (''health_score'', Num 0.3),
      (''fused_risk'', Num (0.6 * 0.2 + 0.3 * 0.7 + 0.1 * (1 / (1 + exp 1))))]"

definition raising_files :: files where
  "raising_files =
     demo_files\<lparr>lstm_file := Some (\<lambda>w. Inr 0.9),
                 rf_file := Some (\<lambda>x. Inl (ValueError ''could not convert string to float''))\<rparr>"

definition raising_response :: response where
  "raising_response =
     [(''failure_prob_lstm'', Num 0.9), (''prob_failure_rf'', Num 0.5), (''ae_score'', Num 0),
      (''ae_scaled'', Num (1 / (1 + exp 1))), (''health_score'', Num 0.5),
      (''fused_risk'', Num (0.6 * 0.9 + 0.3 * 0.5 + 0.1 * (1 / (1 + exp 1))))]"


section \<open>Properties of the fusion scorer\<close>

subsection \<open>Loading the handles\<close>

lemma load_all_fresh:
  assumes "lstm_file fs = Some l" "ae_file fs = Some a" "rf_file fs = Some r"
          "imputer_file fs = Some i" "scaler_file fs = Some s"
  shows "load_all fs initial_globals = ((Some l, Some a, Some r, Some i, Some s), loaded fs)"
  using assms by (simp add: load_all_def initial_globals_def loaded_def)

lemma load_all_loaded:
  assumes "g_lstm g = Some l" "g_ae g = Some a" "g_rf g = Some r"
          "g_imputer g = Some i" "g_scaler g = Some s"
  shows "load_all fs g = ((Some l, Some a, Some r, Some i, Some s), g)"
  using assms by (simp add: load_all_def)

lemma load_all_unavailable:
  assumes "(g_lstm g = None \<and> lstm_file fs = None) \<or> (g_ae g = None \<and> ae_file fs = None)
         \<or> (g_rf g = None \<and> rf_file fs = None) \<or> (g_imputer g = None \<and> imputer_file fs = None)
         \<or> (g_scaler g = None \<and> scaler_file fs = None)"
  shows "fst (fst (load_all fs g)) = None"
  using assms
  apply (cases "g_lstm g"; cases "g_ae g"; cases "g_rf g"; cases "g_imputer g"; cases "g_scaler g")
  apply (auto simp add: load_all_def load_failed_def Let_def)
  done


lemma predict_fusion_fresh:
  assumes fs: "lstm_file fs = Some l" "ae_file fs = Some a" "rf_file fs = Some r"
          "imputer_file fs = Some i" "scaler_file fs = Some s"
      and l: "l window = Inr p_lstm" and a: "a window = Inr recon"
      and sh: "same_shape window recon"
  shows "predict_fusion fs initial_globals window agg =
     (let p_rf = (case r (feature_vector agg) of Inl e \<Rightarrow> 0.5 | Inr prob \<Rightarrow> prob);
          ae_score = mse window recon in
      (Inr [(''failure_prob_lstm'', Num p_lstm),
            (''prob_failure_rf'', Num p_rf),
            (''ae_score'', Num ae_score),
            (''ae_scaled'', Num (ae_scaled_of ae_score)),
            (''health_score'', Num (1 - p_rf)),
            (''fused_risk'', Num (fused_of p_lstm (1 - p_rf) (ae_scaled_of ae_score)))],
       loaded fs))"
proof -
  have ld: "load_all fs (loaded fs) = ((Some l, Some a, Some r, Some i, Some s), loaded fs)"
    by (rule load_all_loaded) (simp_all add: loaded_def fs)
  have 1: "lstm_predict_prob fs initial_globals window = (Inr p_lstm, loaded fs)"
    by (simp add: lstm_predict_prob_def load_all_fresh[OF fs] l)
  have 2: "rf_prob_failure fs (loaded fs) agg =
        ((case r (feature_vector agg) of Inl e \<Rightarrow> 0.5 | Inr prob \<Rightarrow> prob), loaded fs)"
    by (simp add: rf_prob_failure_def ld split: sum.splits)
  have 3: "ae_anomaly_score fs (loaded fs) window = (Inr (mse window recon), loaded fs)"
    by (simp add: ae_anomaly_score_def ld a sh)
  show ?thesis
    by (simp add: predict_fusion_def 1 2 3 Let_def)
qed

lemma predict_fusion_unavailable:
  assumes "(g_lstm g = None \<and> lstm_file fs = None) \<or> (g_ae g = None \<and> ae_file fs = None)
         \<or> (g_rf g = None \<and> rf_file fs = None) \<or> (g_imputer g = None \<and> imputer_file fs = None)
         \<or> (g_scaler g = None \<and> scaler_file fs = None)"
  shows "fst (predict_fusion fs g window agg) = Inl none_has_no_predict"
proof -
  obtain h g' where ld: "load_all fs g = (h, g')" by (cases "load_all fs g")
  with load_all_unavailable[OF assms] have "fst h = None" by simp
  then obtain rest where "h = (None, rest)" by (cases h) auto
  with ld have "lstm_predict_prob fs g window = (Inl none_has_no_predict, g')"
    by (simp add: lstm_predict_prob_def)
  then show ?thesis by (simp add: predict_fusion_def)
qed

lemma mse_self: "mse w w = 0"
proof -
  have "map (\<lambda>(x, y). (x - y)\<^sup>2) (zip xs xs) = map (\<lambda>x. 0) xs" for xs :: "real list"
    by (induction xs) auto
  then show ?thesis by (simp add: mse_def)
qed

lemma demo_predict:
  "predict_fusion demo_files initial_globals demo_window demo_agg = (Inr demo_response, loaded demo_files)"
  using predict_fusion_fresh[of demo_files "\<lambda>w. Inr 1" "\<lambda>w. Inr w" "\<lambda>x. Inr 0"
      "\<lparr>statistics = []\<rparr>" "\<lparr>center = [], scale = []\<rparr>" demo_window 1 demo_window demo_agg]
  by (simp add: demo_files_def same_shape_def mse_self demo_response_def)

lemma load_all_success_aux:
  assumes "load_all fs g = ((Some l, ha, hr, hi, hs), g')"
  shows "ha \<noteq> None \<and> hr \<noteq> None \<and> hi \<noteq> None \<and> hs \<noteq> None
           \<and> g_lstm g' = Some l \<and> g_ae g' = ha \<and> g_rf g' = hr
           \<and> g_imputer g' = hi \<and> g_scaler g' = hs"
proof -
  define v1 where "v1 = (if g_lstm g = None then lstm_file fs else g_lstm g)"
  define v2 where "v2 = (if g_ae g = None then ae_file fs else g_ae g)"
  define v3 where "v3 = (if g_rf g = None then rf_file fs else g_rf g)"
  define v4 where "v4 = (if g_imputer g = None then imputer_file fs else g_imputer g)"
  define v5 where "v5 = (if g_scaler g = None then scaler_file fs else g_scaler g)"
  have ok: "v1 \<noteq> None \<and> v2 \<noteq> None \<and> v3 \<noteq> None \<and> v4 \<noteq> None \<and> v5 \<noteq> None"
  proof (rule ccontr)
    assume "\<not> ?thesis"
    then have "(g_lstm g = None \<and> lstm_file fs = None) \<or> (g_ae g = None \<and> ae_file fs = None)
         \<or> (g_rf g = None \<and> rf_file fs = None) \<or> (g_imputer g = None \<and> imputer_file fs = None)
         \<or> (g_scaler g = None \<and> scaler_file fs = None)"
      by (auto simp: v1_def v2_def v3_def v4_def v5_def split: if_splits)
    from load_all_unavailable[OF this] assms show False by simp
  qed
  have "load_all fs g = ((v1, v2, v3, v4, v5),
      g\<lparr>g_lstm := v1, g_ae := v2, g_rf := v3, g_imputer := v4, g_scaler := v5\<rparr>)"
    using ok unfolding v1_def v2_def v3_def v4_def v5_def
    apply (cases "g_lstm g"; cases "g_ae g"; cases "g_rf g"; cases "g_imputer g"; cases "g_scaler g")
    apply (auto simp add: load_all_def Let_def)
    done
  with assms ok show ?thesis by auto
qed

lemma load_all_success:
  assumes "load_all fs g = ((Some l, ha, hr, hi, hs), g')"
  shows "\<exists>a r i s. ha = Some a \<and> hr = Some r \<and> hi = Some i \<and> hs = Some s
           \<and> g_lstm g' = Some l \<and> g_ae g' = Some a \<and> g_rf g' = Some r
           \<and> g_imputer g' = Some i \<and> g_scaler g' = Some s"
  using load_all_success_aux[OF assms] by auto

lemma load_all_again:
  assumes "load_all fs g = ((Some l, Some a, Some r, Some i, Some s), g')"
  shows "load_all fs g' = ((Some l, Some a, Some r, Some i, Some s), g')"
proof -
  from load_all_success[OF assms]
  have "g_lstm g' = Some l" "g_ae g' = Some a" "g_rf g' = Some r"
       "g_imputer g' = Some i" "g_scaler g' = Some s" by auto
  then show ?thesis by (rule load_all_loaded)
qed

lemma predict_fusion_success:
  assumes ld: "load_all fs g = ((Some l, Some a, Some r, Some i, Some s), g')"
      and l: "l window = Inr p_lstm" and a: "a window = Inr recon"
      and sh: "same_shape window recon"
  shows "predict_fusion fs g window agg =
     (Inr [(''failure_prob_lstm'', Num p_lstm),
           (''prob_failure_rf'', Num (case r (feature_vector agg) of Inl e \<Rightarrow> 0.5 | Inr q \<Rightarrow> q)),
           (''ae_score'', Num (mse window recon)),
           (''ae_scaled'', Num (1 / (1 + exp (- (mse window recon - 0.01) * 100)))),
           (''health_score'', Num (1 - (case r (feature_vector agg) of Inl e \<Rightarrow> 0.5 | Inr q \<Rightarrow> q))),
           (''fused_risk'',
              Num (0.6 * p_lstm
                   + 0.3 * (case r (feature_vector agg) of Inl e \<Rightarrow> 0.5 | Inr q \<Rightarrow> q)
                   + 0.1 * (1 / (1 + exp (- (mse window recon - 0.01) * 100)))))],
      g')"
proof -
  note ld' = load_all_again[OF ld]
  have 1: "lstm_predict_prob fs g window = (Inr p_lstm, g')"
    by (simp add: lstm_predict_prob_def ld l)
  have 2: "rf_prob_failure fs g' agg =
        ((case r (feature_vector agg) of Inl e \<Rightarrow> 0.5 | Inr q \<Rightarrow> q), g')"
    by (simp add: rf_prob_failure_def ld' split: sum.splits)
  have 3: "ae_anomaly_score fs g' window = (Inr (mse window recon), g')"
    by (simp add: ae_anomaly_score_def ld' a sh)
  show ?thesis
    by (simp add: predict_fusion_def 1 2 3 Let_def ae_scaled_of_def fused_of_def
          W_LSTM_def W_RF_def W_AE_def)
qed

lemma predict_fusion_returns:
  assumes "predict_fusion fs g window agg = (Inr resp, g')"
  shows "\<exists>l a r i s p_lstm recon.
           load_all fs g = ((Some l, Some a, Some r, Some i, Some s), g')
           \<and> l window = Inr p_lstm \<and> a window = Inr recon \<and> same_shape window recon"
proof -
  obtain h g1 where ld: "load_all fs g = (h, g1)" by (cases "load_all fs g")
  obtain hl ha hr hi hs where h: "h = (hl, ha, hr, hi, hs)" by (cases h) auto
  from assms ld h obtain l p_lstm where hl: "hl = Some l" and l: "l window = Inr p_lstm"
    by (auto simp: predict_fusion_def lstm_predict_prob_def split: option.splits sum.splits prod.splits)
  from load_all_success[OF ld[unfolded h hl]]
  obtain a r i s where hs: "ha = Some a" "hr = Some r" "hi = Some i" "hs = Some s" by blast
  have ld1: "load_all fs g = ((Some l, Some a, Some r, Some i, Some s), g1)"
    using ld h hl hs by simp
  note ld2 = load_all_again[OF ld1]
  have 1: "lstm_predict_prob fs g window = (Inr p_lstm, g1)"
    by (simp add: lstm_predict_prob_def ld1 l)
  have 2: "rf_prob_failure fs g1 agg =
        ((case r (feature_vector agg) of Inl e \<Rightarrow> 0.5 | Inr q \<Rightarrow> q), g1)"
    by (simp add: rf_prob_failure_def ld2 split: sum.splits)
  from assms have "\<exists>recon. a window = Inr recon \<and> same_shape window recon \<and> g' = g1"
    by (auto simp: predict_fusion_def 1 2 ae_anomaly_score_def ld2 Let_def
             split: sum.splits if_splits)
  with ld1 l show ?thesis by blast
qed

lemma graded_load:
  "load_all graded_files initial_globals =
     ((Some (\<lambda>w. Inr 0.2), Some (\<lambda>w. Inr w), Some (\<lambda>x. Inr 0.7),
       Some \<lparr>statistics = []\<rparr>, Some \<lparr>center = [], scale = []\<rparr>), loaded graded_files)"
  by (rule load_all_fresh) (simp_all add: graded_files_def demo_files_def)

lemma raising_load:
  "load_all raising_files initial_globals =
     ((Some (\<lambda>w. Inr 0.9), Some (\<lambda>w. Inr w),
       Some (\<lambda>x. Inl (ValueError ''could not convert string to float'')),
       Some \<lparr>statistics = []\<rparr>, Some \<lparr>center = [], scale = []\<rparr>), loaded raising_files)"
  by (rule load_all_fresh) (simp_all add: raising_files_def demo_files_def)

text \<open>
  C1. Whatever the three predictors return, \<open>predict_fusion\<close> combines their outputs:
  when the handles are loaded, the sequence model returns \<open>p_lstm\<close> on the window, the
  tabular model returns \<open>q\<close> on the feature vector (0.5 stands in when it raises) and the
  autoencoder returns a reconstruction of the window, the response holds these values,
  the scaled reconstruction error, and
  \<open>fused_risk = 0.6 * p_lstm + 0.3 * q + 0.1 * ae_scaled\<close>; a response is returned in no
  other case. The three weights are constants that sum to 1; the weighted sum of line 112
  is 0.6 at (sequence 1, tabular 0, scaled anomaly 0) and 0 at all-zero inputs.
\<close>

theorem fusion_weighted_sum:
  "(\<forall>l a r i s g' p_lstm recon.
       load_all fs g = ((Some l, Some a, Some r, Some i, Some s), g')
       \<and> l window = Inr p_lstm \<and> a window = Inr recon \<and> same_shape window recon \<longrightarrow>
       predict_fusion fs g window agg =
         (Inr [(''failure_prob_lstm'', Num p_lstm),
               (''prob_failure_rf'', Num (case r (feature_vector agg) of Inl e \<Rightarrow> 0.5 | Inr q \<Rightarrow> q)),
               (''ae_score'', Num (mse window recon)),
               (''ae_scaled'', Num (1 / (1 + exp (- (mse window recon - 0.01) * 100)))),
               (''health_score'', Num (1 - (case r (feature_vector agg) of Inl e \<Rightarrow> 0.5 | Inr q \<Rightarrow> q))),
               (''fused_risk'',
                  Num (0.6 * p_lstm
                       + 0.3 * (case r (feature_vector agg) of Inl e \<Rightarrow> 0.5 | Inr q \<Rightarrow> q)
                       + 0.1 * (1 / (1 + exp (- (mse window recon - 0.01) * 100)))))],
          g'))
   \<and> (\<forall>resp g'. predict_fusion fs g window agg = (Inr resp, g') \<longrightarrow>
         (\<exists>l a r i s p_lstm recon.
            load_all fs g = ((Some l, Some a, Some r, Some i, Some s), g')
            \<and> l window = Inr p_lstm \<and> a window = Inr recon \<and> same_shape window recon))
   \<and> (\<forall>p q s. fused_of p (1 - q) s = 0.6 * p + 0.3 * q + 0.1 * s)
   \<and> W_LSTM + W_RF + W_AE = 1
   \<and> fused_of 1 (1 - 0) 0 = 0.6
   \<and> fused_of 0 (1 - 0) 0 = 0"
proof -
  have 1: "\<forall>l a r i s g' p_lstm recon.
       load_all fs g = ((Some l, Some a, Some r, Some i, Some s), g')
       \<and> l window = Inr p_lstm \<and> a window = Inr recon \<and> same_shape window recon \<longrightarrow>
       predict_fusion fs g window agg =
         (Inr [(''failure_prob_lstm'', Num p_lstm),
               (''prob_failure_rf'', Num (case r (feature_vector agg) of Inl e \<Rightarrow> 0.5 | Inr q \<Rightarrow> q)),
               (''ae_score'', Num (mse window recon)),
               (''ae_scaled'', Num (1 / (1 + exp (- (mse window recon - 0.01) * 100)))),
               (''health_score'', Num (1 - (case r (feature_vector agg) of Inl e \<Rightarrow> 0.5 | Inr q \<Rightarrow> q))),
               (''fused_risk'',
                  Num (0.6 * p_lstm
                       + 0.3 * (case r (feature_vector agg) of Inl e \<Rightarrow> 0.5 | Inr q \<Rightarrow> q)
                       + 0.1 * (1 / (1 + exp (- (mse window recon - 0.01) * 100)))))],
          g')"
    using predict_fusion_success[of fs g _ _ _ _ _ _ window] by blast
  have 2: "\<forall>resp g'. predict_fusion fs g window agg = (Inr resp, g') \<longrightarrow>
         (\<exists>l a r i s p_lstm recon.
            load_all fs g = ((Some l, Some a, Some r, Some i, Some s), g')
            \<and> l window = Inr p_lstm \<and> a window = Inr recon \<and> same_shape window recon)"
    using predict_fusion_returns[of fs g window agg] by blast
  have 3: "\<forall>p q s. fused_of p (1 - q) s = 0.6 * p + 0.3 * q + 0.1 * s"
    by (simp add: fused_of_def W_LSTM_def W_RF_def W_AE_def)
  have 4: "W_LSTM + W_RF + W_AE = 1 \<and> fused_of 1 (1 - 0) 0 = 0.6 \<and> fused_of 0 (1 - 0) 0 = 0"
    by (simp add: fused_of_def W_LSTM_def W_RF_def W_AE_def)
  from 1 2 3 4 show ?thesis by (intro conjI) blast+
qed

text \<open>
  C1's theorem with a sequence model that returns 0.2, a tabular model that returns 0.7
  and an autoencoder that reconstructs the window exactly.
\<close>

theorem fusion_weighted_sum_witness:
  "load_all graded_files initial_globals =
     ((Some (\<lambda>w. Inr 0.2), Some (\<lambda>w. Inr w), Some (\<lambda>x. Inr 0.7),
       Some \<lparr>statistics = []\<rparr>, Some \<lparr>center = [], scale = []\<rparr>), loaded graded_files)
   \<and> same_shape demo_window demo_window
   \<and> predict_fusion graded_files initial_globals demo_window demo_agg
        = (Inr graded_response, loaded graded_files)
   \<and> map_of graded_response ''fused_risk''
        = Some (Num (0.6 * 0.2 + 0.3 * 0.7 + 0.1 * (1 / (1 + exp 1))))"
proof -
  have sh: "same_shape demo_window demo_window" by (simp add: same_shape_def)
  from fusion_weighted_sum[of graded_files initial_globals demo_window demo_agg]
  have "load_all graded_files initial_globals =
          ((Some (\<lambda>w. Inr 0.2), Some (\<lambda>w. Inr w), Some (\<lambda>x. Inr 0.7),
            Some \<lparr>statistics = []\<rparr>, Some \<lparr>center = [], scale = []\<rparr>), loaded graded_files)
        \<and> (\<lambda>w. Inr 0.2 :: error + real) demo_window = Inr 0.2
        \<and> (\<lambda>w. Inr w :: error + ndarray) demo_window = Inr demo_window
        \<and> same_shape demo_window demo_window \<longrightarrow>
       predict_fusion graded_files initial_globals demo_window demo_agg =
         (Inr [(''failure_prob_lstm'', Num 0.2),
               (''prob_failure_rf'', Num (case (\<lambda>x. Inr 0.7 :: error + real) (feature_vector demo_agg) of Inl e \<Rightarrow> 0.5 | Inr q \<Rightarrow> q)),
               (''ae_score'', Num (mse demo_window demo_window)),
               (''ae_scaled'', Num (1 / (1 + exp (- (mse demo_window demo_window - 0.01) * 100)))),
               (''health_score'', Num (1 - (case (\<lambda>x. Inr 0.7 :: error + real) (feature_vector demo_agg) of Inl e \<Rightarrow> 0.5 | Inr q \<Rightarrow> q))),
               (''fused_risk'',
                  Num (0.6 * 0.2
                       + 0.3 * (case (\<lambda>x. Inr 0.7 :: error + real) (feature_vector demo_agg) of Inl e \<Rightarrow> 0.5 | Inr q \<Rightarrow> q)
                       + 0.1 * (1 / (1 + exp (- (mse demo_window demo_window - 0.01) * 100)))))],
          loaded graded_files)"
    by blast
  with graded_load sh
  have "predict_fusion graded_files initial_globals demo_window demo_agg
        = (Inr graded_response, loaded graded_files)"
    by (simp add: mse_self graded_response_def)
  with graded_load sh show ?thesis by (simp add: graded_response_def)
qed

text \<open>
  C2, as stated, fails: the dict returned by \<open>predict_fusion\<close> has no \<open>risk_level\<close> entry.
\<close>

theorem response_has_no_risk_level:
  "fst (predict_fusion demo_files initial_globals demo_window demo_agg) = Inr demo_response
   \<and> map_of demo_response ''risk_level'' = None"
  by (simp add: demo_predict demo_response_def)

text \<open>
  C2, amended. The response of \<open>predict_fusion\<close> has exactly the six numeric entries
  \<open>failure_prob_lstm, prob_failure_rf, ae_score, ae_scaled, health_score, fused_risk\<close> and no
  \<open>risk_level\<close>; the discrete level is what the demo script's \<open>risk_level\<close> computes from a
  risk score: LOW iff below 0.3, MEDIUM iff from 0.3 to below 0.6, HIGH iff 0.6 or more
  (0.29 is LOW, 0.30 and 0.59 are MEDIUM, 0.60 is HIGH).
\<close>

theorem response_fields_and_risk_level:
  assumes "predict_fusion fs g window agg = (Inr r, g')"
  shows "keys r = [''failure_prob_lstm'', ''prob_failure_rf'', ''ae_score'', ''ae_scaled'',
                   ''health_score'', ''fused_risk'']
       \<and> map_of r ''risk_level'' = None
       \<and> (\<forall>x. (fst (risk_level x) = LOW \<longleftrightarrow> x < 0.3)
              \<and> (fst (risk_level x) = MEDIUM \<longleftrightarrow> 0.3 \<le> x \<and> x < 0.6)
              \<and> (fst (risk_level x) = HIGH \<longleftrightarrow> 0.6 \<le> x))
       \<and> fst (risk_level 0.29) = LOW \<and> fst (risk_level 0.30) = MEDIUM
       \<and> fst (risk_level 0.59) = MEDIUM \<and> fst (risk_level 0.60) = HIGH"
proof -
  have "keys r = [''failure_prob_lstm'', ''prob_failure_rf'', ''ae_score'', ''ae_scaled'',
                   ''health_score'', ''fused_risk''] \<and> map_of r ''risk_level'' = None"
    using assms
    by (auto simp: predict_fusion_def Let_def keys_def split: prod.splits sum.splits)
  moreover have "\<forall>x. (fst (risk_level x) = LOW \<longleftrightarrow> x < 0.3)
              \<and> (fst (risk_level x) = MEDIUM \<longleftrightarrow> 0.3 \<le> x \<and> x < 0.6)
              \<and> (fst (risk_level x) = HIGH \<longleftrightarrow> 0.6 \<le> x)"
    by (auto simp: risk_level_def)
  moreover have "fst (risk_level 0.29) = LOW \<and> fst (risk_level 0.30) = MEDIUM
       \<and> fst (risk_level 0.59) = MEDIUM \<and> fst (risk_level 0.60) = HIGH"
    by (simp add: risk_level_def)
  ultimately show ?thesis by blast
qed

text \<open>
  The hypothesis of C2's theorem holds for the example files, window and aggregates.
\<close>

theorem response_fields_and_risk_level_witness:
  "predict_fusion demo_files initial_globals demo_window demo_agg
      = (Inr demo_response, loaded demo_files)
   \<and> keys demo_response = [''failure_prob_lstm'', ''prob_failure_rf'', ''ae_score'', ''ae_scaled'',
                   ''health_score'', ''fused_risk'']
   \<and> fst (risk_level 0.29) = LOW \<and> fst (risk_level 0.60) = HIGH"
  using response_fields_and_risk_level[OF demo_predict]
  by (simp add: demo_predict)

lemma feature_names_eq:
  "feature_names =
     [''temperature_mean'', ''temperature_std'', ''temperature_min'', ''temperature_max'', ''temperature_median'',
      ''vibration_mean'', ''vibration_std'', ''vibration_min'', ''vibration_max'', ''vibration_median'',
      ''rpm_mean'', ''rpm_std'', ''rpm_min'', ''rpm_max'', ''rpm_median'',
      ''humidity_mean'', ''humidity_std'', ''humidity_min'', ''humidity_max'', ''humidity_median'']"
  by (simp add: feature_names_def sensor_names_def stat_names_def)

text \<open>
  C9. The vector handed to the tabular model has 20 entries in the order sensor by
  statistic (temperature, vibration, rpm, humidity; mean, std, min, max, median within each),
  every name absent from the mapping contributing 0.0 at its position; it is this vector
  that \<open>rf_prob_failure\<close> passes to the loaded handle.
\<close>

theorem rf_feature_vector:
  "feature_names =
     [''temperature_mean'', ''temperature_std'', ''temperature_min'', ''temperature_max'', ''temperature_median'',
      ''vibration_mean'', ''vibration_std'', ''vibration_min'', ''vibration_max'', ''vibration_median'',
      ''rpm_mean'', ''rpm_std'', ''rpm_min'', ''rpm_max'', ''rpm_median'',
      ''humidity_mean'', ''humidity_std'', ''humidity_min'', ''humidity_max'', ''humidity_median'']
   \<and> length (feature_vector agg) = 20
   \<and> feature_vector agg = map (\<lambda>k. case agg k of None \<Rightarrow> 0 | Some v \<Rightarrow> v) feature_names
   \<and> (load_all fs g = ((l, a, Some m, i, s), g') \<longrightarrow>
        rf_prob_failure fs g agg =
          ((case m (feature_vector agg) of Inl e \<Rightarrow> 0.5 | Inr prob \<Rightarrow> prob), g'))"
proof -
  have "length (feature_vector agg) = 20"
    by (simp add: feature_vector_def feature_names_eq)
  moreover have "feature_vector agg = map (\<lambda>k. case agg k of None \<Rightarrow> 0 | Some v \<Rightarrow> v) feature_names"
    by (simp add: feature_vector_def dict_get_def)
  moreover have "load_all fs g = ((l, a, Some m, i, s), g') \<longrightarrow>
        rf_prob_failure fs g agg =
          ((case m (feature_vector agg) of Inl e \<Rightarrow> 0.5 | Inr prob \<Rightarrow> prob), g')"
    by (simp add: rf_prob_failure_def split: sum.splits)
  ultimately show ?thesis using feature_names_eq by blast
qed

lemma demo_load:
  "load_all demo_files initial_globals =
     ((Some (\<lambda>w. Inr 1), Some (\<lambda>w. Inr w), Some (\<lambda>x. Inr 0),
       Some \<lparr>statistics = []\<rparr>, Some \<lparr>center = [], scale = []\<rparr>), loaded demo_files)"
  by (rule load_all_fresh) (simp_all add: demo_files_def)

text \<open>
  C9 on the example files: the handle is loaded and receives the vector of the example
  aggregates, which name one feature only.
\<close>

theorem rf_feature_vector_witness:
  "load_all demo_files initial_globals =
     ((Some (\<lambda>w. Inr 1), Some (\<lambda>w. Inr w), Some (\<lambda>x. Inr 0),
       Some \<lparr>statistics = []\<rparr>, Some \<lparr>center = [], scale = []\<rparr>), loaded demo_files)
   \<and> rf_prob_failure demo_files initial_globals demo_agg = (0, loaded demo_files)
   \<and> feature_vector demo_agg = [25.5, 0, 0, 0, 0, 0, 0, 0, 0, 0, 0, 0, 0, 0, 0, 0, 0, 0, 0, 0]"
  using rf_feature_vector[of demo_agg demo_files initial_globals "Some (\<lambda>w. Inr 1)"
      "Some (\<lambda>w. Inr w)" "\<lambda>x. Inr 0" "Some \<lparr>statistics = []\<rparr>" "Some \<lparr>center = [], scale = []\<rparr>"
      "loaded demo_files"]
  by (simp add: demo_load demo_agg_def feature_names_def sensor_names_def stat_names_def)


subsection \<open>The response and the window adapter\<close>

lemma predict_fusion_keys:
  assumes "predict_fusion fs g window agg = (Inr r, g')"
  shows "keys r = [''failure_prob_lstm'', ''prob_failure_rf'', ''ae_score'', ''ae_scaled'',
                   ''health_score'', ''fused_risk'']"
  using assms
  by (auto simp: predict_fusion_def Let_def keys_def split: prod.splits sum.splits)

lemma np_array_rect:
  assumes "list_all (\<lambda>r. length r = f) wd"
  shows "np_array wd = Inr wd"
proof (cases wd)
  case Nil
  then show ?thesis by (simp add: np_array_def)
next
  case (Cons r rs)
  with assms have "list_all (\<lambda>x. length x = length r) rs"
    by (auto simp: list_all_iff)
  with Cons show ?thesis by (simp add: np_array_def)
qed

lemma ncols_rect:
  assumes "list_all (\<lambda>r. length r = f) wd" "wd \<noteq> []"
  shows "ncols wd = f"
  using assms by (cases wd) (auto simp: ncols_def)

lemma adapt_pad:
  assumes "list_all (\<lambda>r. length r = 4) wd" "0 < length wd" "length wd < 60"
  shows "adapt_window wd = Inr (replicate (60 - length wd) [0, 0, 0, 0] @ wd)"
proof -
  have "ncols wd = 4" using assms by (intro ncols_rect) auto
  moreover have "replicate 4 (0::real) = [0, 0, 0, 0]" by (simp add: numeral_eq_Suc)
  ultimately show ?thesis
    using assms by (simp add: adapt_window_def np_array_rect shape_is_60_4_def vstack_def)
qed

lemma adapt_short_mismatch:
  assumes "list_all (\<lambda>r. length r = f) wd" "0 < length wd" "length wd < 60" "f \<noteq> 4"
  shows "adapt_window wd = Inl vstack_error"
proof -
  have "ncols wd = f" using assms by (intro ncols_rect) auto
  then show ?thesis
    using assms
    by (simp add: adapt_window_def np_array_rect[OF assms(1)] shape_is_60_4_def vstack_def vstack_error_def)
qed

lemma adapt_truncate:
  assumes "list_all (\<lambda>r. length r = f) wd" "60 < length wd"
  shows "adapt_window wd = Inr (drop (length wd - 60) wd)"
  using assms by (simp add: adapt_window_def np_array_rect[OF assms(1)] shape_is_60_4_def)

lemma adapt_sixty:
  assumes "list_all (\<lambda>r. length r = f) wd" "length wd = 60"
  shows "adapt_window wd = Inr wd"
  using assms by (simp add: adapt_window_def np_array_rect[OF assms(1)])

lemma adapt_ragged:
  "adapt_window ragged_window = Inl inhomogeneous_error"
  by (simp add: adapt_window_def np_array_def ragged_window_def)

lemma wrapper_adapt_error:
  assumes "adapt_window wd = Inl e"
  shows "predict_from_window_and_agg True fs g wd agg = (Inr (safe_defaults e), g)"
  using assms by (simp add: predict_from_window_and_agg_def)

text \<open>
  C3, as stated, fails: a window of 61 rows with three features is adapted (its last 60
  rows are kept), and a window of 40 rows with three features raises nothing: the
  service returns the default response.
\<close>

theorem feature_mismatch_is_truncated:
  "adapt_window (replicate 61 [1, 2, 3]) = Inr (replicate 60 [1, 2, 3])
   \<and> fst (predict_from_window_and_agg True demo_files initial_globals (replicate 40 [1, 2, 3]) demo_agg)
       = Inr (safe_defaults vstack_error)"
proof -
  have "adapt_window (replicate 61 [1, 2, 3]) = Inr (drop (length (replicate 61 [1::real, 2, 3]) - 60) (replicate 61 [1, 2, 3]))"
    by (rule adapt_truncate[where f = 3]) (simp_all add: list_all_iff)
  then have 1: "adapt_window (replicate 61 [1, 2, 3]) = Inr (replicate 60 [1, 2, 3])"
    by simp
  have "adapt_window (replicate 40 [1, 2, 3]) = Inl vstack_error"
    by (rule adapt_short_mismatch[where f = 3]) (simp_all add: list_all_iff)
  then have 2: "fst (predict_from_window_and_agg True demo_files initial_globals (replicate 40 [1, 2, 3]) demo_agg)
       = Inr (safe_defaults vstack_error)"
    by (simp add: wrapper_adapt_error)
  from 1 2 show ?thesis by simp
qed

text \<open>
  C3, amended. For a rectangular window the adaptation looks at the row count only and
  never checks the feature count: 1 to 59 rows of four features are left-padded with zero
  rows to exactly 60 rows, the original rows following in order; more than 60 rows keep
  their last 60, whatever the feature count; exactly 60 rows pass unchanged, whatever the
  feature count; with 1 to 59 rows and a feature count other than four the stacking
  raises a ValueError, which the service turns into the default response.
\<close>

theorem adapt_window_rows_only:
  assumes "list_all (\<lambda>r. length r = f) wd"
  shows "(0 < length wd \<and> length wd < 60 \<and> f = 4 \<longrightarrow>
            adapt_window wd = Inr (replicate (60 - length wd) [0, 0, 0, 0] @ wd)
            \<and> length (replicate (60 - length wd) [0, 0, 0, 0::real] @ wd) = 60)
       \<and> (60 < length wd \<longrightarrow>
            adapt_window wd = Inr (drop (length wd - 60) wd)
            \<and> length (drop (length wd - 60) wd) = 60)
       \<and> (length wd = 60 \<longrightarrow> adapt_window wd = Inr wd)
       \<and> (0 < length wd \<and> length wd < 60 \<and> f \<noteq> 4 \<longrightarrow>
            adapt_window wd = Inl vstack_error
            \<and> predict_from_window_and_agg True fs g wd agg = (Inr (safe_defaults vstack_error), g))"
  using assms
  by (auto simp: adapt_pad adapt_truncate adapt_sixty adapt_short_mismatch wrapper_adapt_error)

text \<open>
  C3's theorem at a 40-row and a 90-row window of four features and at a 60-row and a
  40-row window of three features.
\<close>

theorem adapt_window_rows_only_witness:
  "adapt_window (replicate 40 [1, 2, 3, 4]) = Inr (replicate 20 [0, 0, 0, 0] @ replicate 40 [1, 2, 3, 4])
   \<and> adapt_window (replicate 90 [1, 2, 3, 4]) = Inr (replicate 60 [1, 2, 3, 4])
   \<and> adapt_window (replicate 60 [1, 2, 3]) = Inr (replicate 60 [1, 2, 3])
   \<and> adapt_window (replicate 40 [1, 2, 3]) = Inl vstack_error"
proof -
  have a: "list_all (\<lambda>r. length r = 4) (replicate 40 [1::real, 2, 3, 4])" by (simp add: list_all_iff)
  have b: "list_all (\<lambda>r. length r = 4) (replicate 90 [1::real, 2, 3, 4])" by (simp add: list_all_iff)
  have c: "list_all (\<lambda>r. length r = 3) (replicate 60 [1::real, 2, 3])" by (simp add: list_all_iff)
  have d: "list_all (\<lambda>r. length r = 3) (replicate 40 [1::real, 2, 3])" by (simp add: list_all_iff)
  show ?thesis
    using adapt_window_rows_only[OF a] adapt_window_rows_only[OF b]
          adapt_window_rows_only[OF c] adapt_window_rows_only[OF d]
    by simp
qed


lemma wrapper_unavailable:
  assumes "(g_lstm g = None \<and> lstm_file fs = None) \<or> (g_ae g = None \<and> ae_file fs = None)
         \<or> (g_rf g = None \<and> rf_file fs = None) \<or> (g_imputer g = None \<and> imputer_file fs = None)
         \<or> (g_scaler g = None \<and> scaler_file fs = None)"
  shows "\<exists>e g'. predict_from_window_and_agg True fs g wd agg = (Inr (safe_defaults e), g')"
proof (cases "adapt_window wd")
  case (Inl e)
  then show ?thesis by (auto simp: wrapper_adapt_error)
next
  case (Inr w)
  obtain x g' where pf: "predict_fusion fs g w agg = (x, g')" by (cases "predict_fusion fs g w agg")
  with predict_fusion_unavailable[OF assms, of w agg] have "x = Inl none_has_no_predict" by simp
  with pf Inr show ?thesis by (auto simp: predict_from_window_and_agg_def)
qed


lemma safe_defaults_fields:
  "map_of (safe_defaults e) ''error'' = Some (Str (str e))
   \<and> map_of (safe_defaults e) ''failure_prob_lstm'' = Some (Num 0.5)
   \<and> map_of (safe_defaults e) ''prob_failure_rf'' = Some (Num 0.5)
   \<and> map_of (safe_defaults e) ''ae_score'' = Some (Num 1)
   \<and> map_of (safe_defaults e) ''ae_scaled'' = Some (Num 0.5)
   \<and> map_of (safe_defaults e) ''health_score'' = Some (Num 0.5)
   \<and> map_of (safe_defaults e) ''fused_risk'' = Some (Num 0.5)"
  by (simp add: safe_defaults_def)

lemma fusion_unavailable_fields:
  "map_of fusion_unavailable ''error'' = Some (Str ''Fusion model not available'')
   \<and> map_of fusion_unavailable ''failure_prob_lstm'' = Some (Num 0.5)
   \<and> map_of fusion_unavailable ''prob_failure_rf'' = Some (Num 0.5)
   \<and> map_of fusion_unavailable ''ae_score'' = Some (Num 0.5)
   \<and> map_of fusion_unavailable ''ae_scaled'' = Some (Num 0.5)
   \<and> map_of fusion_unavailable ''health_score'' = Some (Num 0.5)
   \<and> map_of fusion_unavailable ''fused_risk'' = Some (Num 0.5)"
  by (simp add: fusion_unavailable_def)

lemma no_lstm_wrapper:
  "predict_from_window_and_agg True no_lstm_files initial_globals demo_window demo_agg
     = (Inr (safe_defaults none_has_no_predict), initial_globals)"
proof -
  have ld: "load_all no_lstm_files initial_globals = ((None, None, None, None, None), initial_globals)"
    by (simp add: load_all_def load_failed_def no_lstm_files_def demo_files_def initial_globals_def)
  have "list_all (\<lambda>r. length r = 4) demo_window" by (simp add: demo_window_def)
  then have "adapt_window demo_window = Inr (replicate (60 - length demo_window) [0, 0, 0, 0] @ demo_window)"
    by (rule adapt_pad) (simp_all add: demo_window_def)
  then show ?thesis
    by (simp add: predict_from_window_and_agg_def predict_fusion_def lstm_predict_prob_def ld)
qed

lemma demo_adapt: "adapt_window demo_window = Inr (replicate 59 [0, 0, 0, 0] @ demo_window)"
proof -
  have "list_all (\<lambda>r. length r = 4) demo_window" by (simp add: demo_window_def)
  then have "adapt_window demo_window = Inr (replicate (60 - length demo_window) [0, 0, 0, 0] @ demo_window)"
    by (rule adapt_pad) (simp_all add: demo_window_def)
  then show ?thesis by (simp add: demo_window_def)
qed

lemma no_lstm_predict:
  "predict_fusion no_lstm_files initial_globals w demo_agg = (Inl none_has_no_predict, initial_globals)"
proof -
  have ld: "load_all no_lstm_files initial_globals = ((None, None, None, None, None), initial_globals)"
    by (simp add: load_all_def load_failed_def no_lstm_files_def demo_files_def initial_globals_def)
  then show ?thesis by (simp add: predict_fusion_def lstm_predict_prob_def)
qed

lemma wrapper_returns:
  "\<exists>r g'. predict_from_window_and_agg imported fs g wd agg = (Inr r, g')
        \<and> set [''failure_prob_lstm'', ''prob_failure_rf'', ''ae_score'', ''ae_scaled'',
                ''health_score'', ''fused_risk''] \<subseteq> set (keys r)"
proof (cases imported)
  case False
  then show ?thesis
    by (simp add: predict_from_window_and_agg_def fusion_unavailable_def keys_def)
next
  case True
  show ?thesis
  proof (cases "adapt_window wd")
    case (Inl e)
    with True show ?thesis
      by (simp add: predict_from_window_and_agg_def safe_defaults_def keys_def)
  next
    case (Inr w)
    obtain x g1 where pf: "predict_fusion fs g w agg = (x, g1)"
      by (cases "predict_fusion fs g w agg")
    show ?thesis
    proof (cases x)
      case (Inl e)
      with True Inr pf show ?thesis
        by (simp add: predict_from_window_and_agg_def safe_defaults_def keys_def)
    next
      case r: (Inr r)
      with pf have "keys r = [''failure_prob_lstm'', ''prob_failure_rf'', ''ae_score'', ''ae_scaled'',
                 ''health_score'', ''fused_risk'']"
        by (simp add: predict_fusion_keys)
      with True Inr pf r show ?thesis
        by (simp add: predict_from_window_and_agg_def)
    qed
  qed
qed

lemma predict_fusion_no_error:
  assumes "predict_fusion fs g w agg = (Inr resp, g1)"
  shows "map_of resp ''error'' = None"
  using assms
  by (auto simp: predict_fusion_def Let_def split: prod.splits sum.splits)

lemma wrapper_swallowed:
  assumes "adapt_window wd = Inr w"
      and "load_all fs g = ((Some l, Some a, Some r, Some i, Some s), g1)"
      and "l w = Inr p" "a w = Inr recon" "same_shape w recon"
      and "r (feature_vector agg) = Inl e"
  shows "\<exists>resp. predict_from_window_and_agg True fs g wd agg = (Inr resp, g1)
           \<and> map_of resp ''error'' = None
           \<and> map_of resp ''failure_prob_lstm'' = Some (Num p)
           \<and> map_of resp ''prob_failure_rf'' = Some (Num 0.5)"
  using predict_fusion_success[OF assms(2,3,4,5), of agg] assms(1,6)
  by (simp add: predict_from_window_and_agg_def)

lemma raising_wrapper:
  "predict_from_window_and_agg True raising_files initial_globals demo_window demo_agg
     = (Inr raising_response, loaded raising_files)"
proof -
  let ?w = "replicate 59 [0, 0, 0, 0] @ demo_window"
  have sh: "same_shape ?w ?w" by (simp add: same_shape_def)
  from predict_fusion_success[OF raising_load _ _ sh, of "0.9" demo_agg]
  have "predict_fusion raising_files initial_globals ?w demo_agg
          = (Inr raising_response, loaded raising_files)"
    by (simp add: mse_self raising_response_def)
  then show ?thesis
    by (simp add: predict_from_window_and_agg_def demo_adapt)
qed





text \<open>
  C10, as stated, fails: an exception raised by the tabular model's \<open>predict_proba\<close> is an
  internal exception, yet the returned dict has no \<open>error\<close> entry and carries the computed
  value 0.9 of the sequence model, not the defaults.
\<close>

theorem swallowed_exception_has_no_error:
  "rf_file raising_files = Some (\<lambda>x. Inl (ValueError ''could not convert string to float''))
   \<and> fst (predict_from_window_and_agg True raising_files initial_globals demo_window demo_agg)
        = Inr raising_response
   \<and> map_of raising_response ''error'' = None
   \<and> map_of raising_response ''failure_prob_lstm'' = Some (Num 0.9)
   \<and> map_of raising_response ''prob_failure_rf'' = Some (Num 0.5)"
proof -
  have a: "rf_file raising_files = Some (\<lambda>x. Inl (ValueError ''could not convert string to float''))"
    by (simp add: raising_files_def)
  have b: "fst (predict_from_window_and_agg True raising_files initial_globals demo_window demo_agg)
        = Inr raising_response"
    by (simp add: raising_wrapper)
  have c: "map_of raising_response ''error'' = None"
    "map_of raising_response ''failure_prob_lstm'' = Some (Num 0.9)"
    "map_of raising_response ''prob_failure_rf'' = Some (Num 0.5)"
    by (simp_all add: raising_response_def)
  from a b c show ?thesis by (intro conjI)
qed

text \<open>
  C10, amended. \<open>predict_from_window_and_agg\<close> always returns a dict, never an exception,
  and the dict has the six keys. When the fusion module was not imported, or when an
  exception escapes the window conversion and adaptation or \<open>predict_fusion\<close>, the dict is
  the fixed default one: 0.5 for every probability field, with an \<open>error\<close> entry. When
  \<open>predict_fusion\<close> returns, the dict is its response, without an \<open>error\<close> entry; this
  includes the case of an exception raised by the tabular model, which \<open>rf_prob_failure\<close>
  catches itself: the tabular term is 0.5 and the other fields are the computed values.
\<close>

theorem wrapper_never_raises:
  "(\<exists>r g'. predict_from_window_and_agg imported fs g wd agg = (Inr r, g')
        \<and> set [''failure_prob_lstm'', ''prob_failure_rf'', ''ae_score'', ''ae_scaled'',
                ''health_score'', ''fused_risk''] \<subseteq> set (keys r))
   \<and> (\<not> imported \<longrightarrow>
         predict_from_window_and_agg imported fs g wd agg = (Inr fusion_unavailable, g))
   \<and> (\<forall>e. imported \<and> adapt_window wd = Inl e \<longrightarrow>
         predict_from_window_and_agg imported fs g wd agg = (Inr (safe_defaults e), g))
   \<and> (\<forall>w e g1. imported \<and> adapt_window wd = Inr w \<and> predict_fusion fs g w agg = (Inl e, g1) \<longrightarrow>
         predict_from_window_and_agg imported fs g wd agg = (Inr (safe_defaults e), g1))
   \<and> (\<forall>w resp g1. imported \<and> adapt_window wd = Inr w
                    \<and> predict_fusion fs g w agg = (Inr resp, g1) \<longrightarrow>
         predict_from_window_and_agg imported fs g wd agg = (Inr resp, g1)
         \<and> map_of resp ''error'' = None)
   \<and> (\<forall>w l a r i s g1 p recon e.
         imported \<and> adapt_window wd = Inr w
         \<and> load_all fs g = ((Some l, Some a, Some r, Some i, Some s), g1)
         \<and> l w = Inr p \<and> a w = Inr recon \<and> same_shape w recon
         \<and> r (feature_vector agg) = Inl e \<longrightarrow>
         (\<exists>resp. predict_from_window_and_agg imported fs g wd agg = (Inr resp, g1)
            \<and> map_of resp ''error'' = None
            \<and> map_of resp ''failure_prob_lstm'' = Some (Num p)
            \<and> map_of resp ''prob_failure_rf'' = Some (Num 0.5)))
   \<and> map_of fusion_unavailable ''error'' = Some (Str ''Fusion model not available'')
   \<and> map_of fusion_unavailable ''failure_prob_lstm'' = Some (Num 0.5)
   \<and> map_of fusion_unavailable ''prob_failure_rf'' = Some (Num 0.5)
   \<and> map_of fusion_unavailable ''ae_scaled'' = Some (Num 0.5)
   \<and> map_of fusion_unavailable ''health_score'' = Some (Num 0.5)
   \<and> map_of fusion_unavailable ''fused_risk'' = Some (Num 0.5)
   \<and> (\<forall>e. map_of (safe_defaults e) ''error'' = Some (Str (str e))
          \<and> map_of (safe_defaults e) ''failure_prob_lstm'' = Some (Num 0.5)
          \<and> map_of (safe_defaults e) ''prob_failure_rf'' = Some (Num 0.5)
          \<and> map_of (safe_defaults e) ''ae_scaled'' = Some (Num 0.5)
          \<and> map_of (safe_defaults e) ''health_score'' = Some (Num 0.5)
          \<and> map_of (safe_defaults e) ''fused_risk'' = Some (Num 0.5))"
proof -
  have 2: "\<not> imported \<longrightarrow>
         predict_from_window_and_agg imported fs g wd agg = (Inr fusion_unavailable, g)"
    by (simp add: predict_from_window_and_agg_def)
  have 3: "\<forall>e. imported \<and> adapt_window wd = Inl e \<longrightarrow>
         predict_from_window_and_agg imported fs g wd agg = (Inr (safe_defaults e), g)"
    by (simp add: predict_from_window_and_agg_def)
  have 4: "\<forall>w e g1. imported \<and> adapt_window wd = Inr w \<and> predict_fusion fs g w agg = (Inl e, g1) \<longrightarrow>
         predict_from_window_and_agg imported fs g wd agg = (Inr (safe_defaults e), g1)"
    by (simp add: predict_from_window_and_agg_def)
  have 5: "\<forall>w resp g1. imported \<and> adapt_window wd = Inr w
                    \<and> predict_fusion fs g w agg = (Inr resp, g1) \<longrightarrow>
         predict_from_window_and_agg imported fs g wd agg = (Inr resp, g1)
         \<and> map_of resp ''error'' = None"
    by (auto simp: predict_from_window_and_agg_def dest: predict_fusion_no_error)
  have 6: "\<forall>w l a r i s g1 p recon e.
         imported \<and> adapt_window wd = Inr w
         \<and> load_all fs g = ((Some l, Some a, Some r, Some i, Some s), g1)
         \<and> l w = Inr p \<and> a w = Inr recon \<and> same_shape w recon
         \<and> r (feature_vector agg) = Inl e \<longrightarrow>
         (\<exists>resp. predict_from_window_and_agg imported fs g wd agg = (Inr resp, g1)
            \<and> map_of resp ''error'' = None
            \<and> map_of resp ''failure_prob_lstm'' = Some (Num p)
            \<and> map_of resp ''prob_failure_rf'' = Some (Num 0.5))"
  proof (intro allI impI)
    fix w l a r i s g1 p recon e
    assume h: "imported \<and> adapt_window wd = Inr w
         \<and> load_all fs g = ((Some l, Some a, Some r, Some i, Some s), g1)
         \<and> l w = Inr p \<and> a w = Inr recon \<and> same_shape w recon
         \<and> r (feature_vector agg) = Inl e"
    then have imp: "imported = True" by simp
    from h show "\<exists>resp. predict_from_window_and_agg imported fs g wd agg = (Inr resp, g1)
            \<and> map_of resp ''error'' = None
            \<and> map_of resp ''failure_prob_lstm'' = Some (Num p)
            \<and> map_of resp ''prob_failure_rf'' = Some (Num 0.5)"
      unfolding imp by (intro wrapper_swallowed[of wd w fs g l a r i s g1 p recon agg e]) simp_all
  qed
  from wrapper_returns[of imported fs g wd agg] 2 3 4 5 6
       fusion_unavailable_fields safe_defaults_fields
  show ?thesis by (intro conjI) blast+
qed

text \<open>
  C10's theorem without the import, with a ragged window, with the sequence model
  missing, with every model answering, and with a tabular model that raises.
\<close>

theorem wrapper_never_raises_witness:
  "predict_from_window_and_agg False demo_files initial_globals demo_window demo_agg
      = (Inr fusion_unavailable, initial_globals)
   \<and> adapt_window ragged_window = Inl inhomogeneous_error
   \<and> predict_from_window_and_agg True demo_files initial_globals ragged_window demo_agg
      = (Inr (safe_defaults inhomogeneous_error), initial_globals)
   \<and> adapt_window demo_window = Inr (replicate 59 [0, 0, 0, 0] @ demo_window)
   \<and> predict_fusion no_lstm_files initial_globals (replicate 59 [0, 0, 0, 0] @ demo_window) demo_agg
      = (Inl none_has_no_predict, initial_globals)
   \<and> predict_from_window_and_agg True no_lstm_files initial_globals demo_window demo_agg
      = (Inr (safe_defaults none_has_no_predict), initial_globals)
   \<and> predict_fusion demo_files initial_globals (replicate 59 [0, 0, 0, 0] @ demo_window) demo_agg
      = (Inr demo_response, loaded demo_files)
   \<and> predict_from_window_and_agg True demo_files initial_globals demo_window demo_agg
      = (Inr demo_response, loaded demo_files)
   \<and> load_all raising_files initial_globals =
       ((Some (\<lambda>w. Inr 0.9), Some (\<lambda>w. Inr w),
         Some (\<lambda>x. Inl (ValueError ''could not convert string to float'')),
         Some \<lparr>statistics = []\<rparr>, Some \<lparr>center = [], scale = []\<rparr>), loaded raising_files)
   \<and> (\<exists>resp. predict_from_window_and_agg True raising_files initial_globals demo_window demo_agg
                 = (Inr resp, loaded raising_files)
          \<and> map_of resp ''error'' = None
          \<and> map_of resp ''failure_prob_lstm'' = Some (Num 0.9)
          \<and> map_of resp ''prob_failure_rf'' = Some (Num 0.5))"
proof -
  let ?w = "replicate 59 [0, 0, 0, 0] @ demo_window"
  have sh: "same_shape ?w ?w" by (simp add: same_shape_def)
  have dp: "predict_fusion demo_files initial_globals ?w demo_agg = (Inr demo_response, loaded demo_files)"
    using predict_fusion_success[OF demo_load _ _ sh, of 1 demo_agg]
    by (simp add: mse_self demo_response_def ae_scaled_of_def fused_of_def W_LSTM_def W_RF_def W_AE_def)
  have a: "predict_from_window_and_agg False demo_files initial_globals demo_window demo_agg
      = (Inr fusion_unavailable, initial_globals)"
    using wrapper_never_raises[of False demo_files initial_globals demo_window demo_agg] by blast
  have b: "predict_from_window_and_agg True demo_files initial_globals ragged_window demo_agg
      = (Inr (safe_defaults inhomogeneous_error), initial_globals)"
    using wrapper_never_raises[of True demo_files initial_globals ragged_window demo_agg] adapt_ragged
    by blast
  have c: "predict_from_window_and_agg True no_lstm_files initial_globals demo_window demo_agg
      = (Inr (safe_defaults none_has_no_predict), initial_globals)"
    using wrapper_never_raises[of True no_lstm_files initial_globals demo_window demo_agg]
          demo_adapt no_lstm_predict[of ?w]
    by blast
  have d: "predict_from_window_and_agg True demo_files initial_globals demo_window demo_agg
      = (Inr demo_response, loaded demo_files)"
    using wrapper_never_raises[of True demo_files initial_globals demo_window demo_agg]
          demo_adapt dp
    by blast
  have e: "\<exists>resp. predict_from_window_and_agg True raising_files initial_globals demo_window demo_agg
                 = (Inr resp, loaded raising_files)
          \<and> map_of resp ''error'' = None
          \<and> map_of resp ''failure_prob_lstm'' = Some (Num 0.9)
          \<and> map_of resp ''prob_failure_rf'' = Some (Num 0.5)"
  proof -
    have h: "True \<and> adapt_window demo_window = Inr ?w
         \<and> load_all raising_files initial_globals =
             ((Some (\<lambda>w. Inr 0.9), Some (\<lambda>w. Inr w),
               Some (\<lambda>x. Inl (ValueError ''could not convert string to float'')),
               Some \<lparr>statistics = []\<rparr>, Some \<lparr>center = [], scale = []\<rparr>), loaded raising_files)
         \<and> (\<lambda>w. Inr 0.9 :: error + real) ?w = Inr 0.9
         \<and> (\<lambda>w. Inr w :: error + ndarray) ?w = Inr ?w \<and> same_shape ?w ?w
         \<and> (\<lambda>x. Inl (ValueError ''could not convert string to float'') :: error + real)
               (feature_vector demo_agg) = Inl (ValueError ''could not convert string to float'')"
      using demo_adapt raising_load sh by simp
    from wrapper_never_raises[of True raising_files initial_globals demo_window demo_agg]
    have "\<forall>w l a r i s g1 p recon e.
         True \<and> adapt_window demo_window = Inr w
         \<and> load_all raising_files initial_globals = ((Some l, Some a, Some r, Some i, Some s), g1)
         \<and> l w = Inr p \<and> a w = Inr recon \<and> same_shape w recon
         \<and> r (feature_vector demo_agg) = Inl e \<longrightarrow>
         (\<exists>resp. predict_from_window_and_agg True raising_files initial_globals demo_window demo_agg = (Inr resp, g1)
            \<and> map_of resp ''error'' = None
            \<and> map_of resp ''failure_prob_lstm'' = Some (Num p)
            \<and> map_of resp ''prob_failure_rf'' = Some (Num 0.5))"
      by blast
    from this[rule_format, OF h] show ?thesis .
  qed
  from a b c d e adapt_ragged demo_adapt no_lstm_predict[of ?w] dp raising_load
  show ?thesis by (intro conjI) assumption+
qed

section \<open>Properties of the windower\<close>

lemma np_max_Max: "xs \<noteq> [] \<Longrightarrow> np_max xs = Inr (Max (set xs))"
  by (cases xs) (simp_all add: np_max_def Max.set_eq_fold[symmetric])

lemma slice_nonempty:
  "0 < T \<Longrightarrow> s + T \<le> length xs \<Longrightarrow> slice xs s (s + T) \<noteq> []"
  by (auto simp: slice_def)


lemma extract_loop_filter:
  assumes "0 < T" "\<forall>s \<in> set starts. s + T \<le> length labels"
  shows "extract_loop arr labels T r starts (ws, ls) =
     Inr (ws @ map (\<lambda>s. slice arr s (s + T))
                 (filter (\<lambda>s. r \<le> valid_ratio (slice arr s (s + T)) T) starts),
          ls @ map (\<lambda>s. Max (set (slice labels s (s + T))))
                 (filter (\<lambda>s. r \<le> valid_ratio (slice arr s (s + T)) T) starts))"
  using assms(2)
proof (induction starts arbitrary: ws ls)
  case Nil
  then show ?case by simp
next
  case (Cons s starts)
  then have "s + T \<le> length labels" by simp
  then have "np_max (slice labels s (s + T)) = Inr (Max (set (slice labels s (s + T))))"
    using assms(1) by (intro np_max_Max slice_nonempty)
  moreover have "\<forall>s \<in> set starts. s + T \<le> length labels" using Cons.prems by simp
  ultimately show ?case
    using Cons.IH by simp
qed

lemma length_label_values: "length (label_values df) = length (rows df)"
  by (simp add: label_values_def)

lemma extract_windows_filter:
  assumes "0 < T"
  shows "extract_windows df T r =
     Inr (map (\<lambda>s. slice (feature_values df) s (s + T))
            (filter (\<lambda>s. r \<le> valid_ratio (slice (feature_values df) s (s + T)) T)
                    [0..<length (rows df) + 1 - T]),
          map (\<lambda>s. Max (set (slice (label_values df) s (s + T))))
            (filter (\<lambda>s. r \<le> valid_ratio (slice (feature_values df) s (s + T)) T)
                    [0..<length (rows df) + 1 - T]))"
proof -
  have "\<forall>s \<in> set [0..<length (rows df) + 1 - T]. s + T \<le> length (label_values df)"
    by (auto simp: length_label_values)
  from extract_loop_filter[OF assms this, of "feature_values df" r "[]" "[]"]
  show ?thesis by (simp add: extract_windows_def feature_values_def Let_def)
qed

lemma demo_extract_08:
  "extract_windows demo_frame 2 0.8 = Inr ([[cells demo_bin, cells demo_bin]], [0])"
  by code_simp

lemma demo_extract_05:
  "extract_windows demo_frame 2 0.5 =
     Inr ([[cells demo_bin, cells demo_bin], [cells demo_bin, cells gap_bin],
           [cells gap_bin, cells demo_bin]], [0, 2, 2])"
  by code_simp

lemma demo_extract_short:
  "extract_windows demo_frame 5 0.8 = Inr ([], [])"
  by code_simp

lemma demo_extract_zero:
  "extract_windows demo_frame 0 0.8 = Inl zero_size_error"
  by code_simp



lemma subseq_filter_mono:
  assumes "\<And>x. P x \<Longrightarrow> Q x"
  shows "subseq (filter P xs) (filter Q xs)"
  using assms by (induction xs) auto

text \<open>
  C6. For thresholds \<open>r1 \<le> r2\<close> on the same frame, the windows kept at \<open>r2\<close> are a
  subsequence of those kept at \<open>r1\<close> (and so are their labels): every window kept at the
  higher threshold is kept at the lower one, and the count does not decrease.
\<close>

theorem lower_threshold_keeps_more:
  assumes "r1 \<le> r2" "0 < T"
  shows "\<exists>w1 l1 w2 l2.
           extract_windows df T r1 = Inr (w1, l1) \<and> extract_windows df T r2 = Inr (w2, l2)
           \<and> subseq w2 w1 \<and> subseq l2 l1 \<and> set w2 \<subseteq> set w1 \<and> length w2 \<le> length w1"
proof -
  let ?keep = "\<lambda>r s. r \<le> valid_ratio (slice (feature_values df) s (s + T)) T"
  let ?starts = "[0..<length (rows df) + 1 - T]"
  have sub: "subseq (filter (?keep r2) ?starts) (filter (?keep r1) ?starts)"
    using assms(1) by (intro subseq_filter_mono) simp
  let ?w = "\<lambda>r. map (\<lambda>s. slice (feature_values df) s (s + T)) (filter (?keep r) ?starts)"
  let ?l = "\<lambda>r. map (\<lambda>s. Max (set (slice (label_values df) s (s + T)))) (filter (?keep r) ?starts)"
  have "subseq (?w r2) (?w r1)" "subseq (?l r2) (?l r1)"
    using sub by (simp_all add: subseq_map)
  moreover from this have "set (?w r2) \<subseteq> set (?w r1)" "length (?w r2) \<le> length (?w r1)"
    by (auto dest: list_emb_length list_emb_set simp del: length_map set_map)
  ultimately show ?thesis
    using extract_windows_filter[OF assms(2), of df r1] extract_windows_filter[OF assms(2), of df r2]
    by blast
qed

text \<open>
  C6's theorem on the example frame with thresholds 0.5 and 0.8: three windows and one.
\<close>

theorem lower_threshold_keeps_more_witness:
  "(0.5::real) \<le> 0.8 \<and> (0::nat) < 2
   \<and> extract_windows demo_frame 2 0.5 =
       Inr ([[cells demo_bin, cells demo_bin], [cells demo_bin, cells gap_bin],
             [cells gap_bin, cells demo_bin]], [0, 2, 2])
   \<and> extract_windows demo_frame 2 0.8 = Inr ([[cells demo_bin, cells demo_bin]], [0])
   \<and> subseq [[cells demo_bin, cells demo_bin]]
        [[cells demo_bin, cells demo_bin], [cells demo_bin, cells gap_bin],
         [cells gap_bin, cells demo_bin]]"
proof -
  have a: "(0.5::real) \<le> 0.8" and b: "(0::nat) < 2" by simp_all
  from lower_threshold_keeps_more[OF a b, of demo_frame]
  obtain w1 l1 w2 l2 where
    "extract_windows demo_frame 2 0.5 = Inr (w1, l1)"
    "extract_windows demo_frame 2 0.8 = Inr (w2, l2)" and s: "subseq w2 w1"
    by blast
  then have "Inr ([[cells demo_bin, cells demo_bin], [cells demo_bin, cells gap_bin],
             [cells gap_bin, cells demo_bin]], [0, 2, 2]) = (Inr (w1, l1) :: error + windows \<times> int list)"
    "Inr ([[cells demo_bin, cells demo_bin]], [0]) = (Inr (w2, l2) :: error + windows \<times> int list)"
    unfolding demo_extract_05 demo_extract_08 by blast+
  then have "w1 = [[cells demo_bin, cells demo_bin], [cells demo_bin, cells gap_bin],
             [cells gap_bin, cells demo_bin]]" "w2 = [[cells demo_bin, cells demo_bin]]"
    by blast+
  with s have "subseq [[cells demo_bin, cells demo_bin]]
        [[cells demo_bin, cells demo_bin], [cells demo_bin, cells gap_bin],
         [cells gap_bin, cells demo_bin]]" by blast
  with a b demo_extract_05 demo_extract_08 show ?thesis by blast
qed

section \<open>Properties of the aggregator\<close>

lemma min_periods_30: "nat \<lfloor>real WINDOW_SIZE * 0.5\<rfloor> = 30"
  by (simp add: WINDOW_SIZE_def)


lemma length_rolling: "length (rolling w mp stat col) = length col"
  by (simp add: rolling_def)

lemma aggregate_features_explicit:
  assumes "rows df = b # bs"
  shows "aggregate_features df =
     Inr ([(''index'', map (\<lambda>i. IntCell (int i)) [0..<length (rows df)]),
           (''temperature_mean'', map FloatCell (rolling 60 30 roll_mean (map temperature (rows df)))),
           (''vibration_mean'', map FloatCell (rolling 60 30 roll_mean (map vibration (rows df)))),
           (''rpm_mean'', map FloatCell (rolling 60 30 roll_mean (map rpm (rows df)))),
           (''humidity_mean'', map FloatCell (rolling 60 30 roll_mean (map humidity (rows df)))),
           (''temperature_std'', map FloatCell (rolling 60 30 roll_std (map temperature (rows df)))),
           (''vibration_std'', map FloatCell (rolling 60 30 roll_std (map vibration (rows df)))),
           (''rpm_std'', map FloatCell (rolling 60 30 roll_std (map rpm (rows df)))),
           (''humidity_std'', map FloatCell (rolling 60 30 roll_std (map humidity (rows df)))),
           (''temperature_min'', map FloatCell (rolling 60 30 roll_min (map temperature (rows df)))),
           (''vibration_min'', map FloatCell (rolling 60 30 roll_min (map vibration (rows df)))),
           (''rpm_min'', map FloatCell (rolling 60 30 roll_min (map rpm (rows df)))),
           (''humidity_min'', map FloatCell (rolling 60 30 roll_min (map humidity (rows df)))),
           (''temperature_max'', map FloatCell (rolling 60 30 roll_max (map temperature (rows df)))),
           (''vibration_max'', map FloatCell (rolling 60 30 roll_max (map vibration (rows df)))),
           (''rpm_max'', map FloatCell (rolling 60 30 roll_max (map rpm (rows df)))),
           (''humidity_max'', map FloatCell (rolling 60 30 roll_max (map humidity (rows df)))),
           (''temperature_median'', map FloatCell (rolling 60 30 roll_median (map temperature (rows df)))),
           (''vibration_median'', map FloatCell (rolling 60 30 roll_median (map vibration (rows df)))),
           (''rpm_median'', map FloatCell (rolling 60 30 roll_median (map rpm (rows df)))),
           (''humidity_median'', map FloatCell (rolling 60 30 roll_median (map humidity (rows df)))),
           (''device_id'', replicate (length (rows df)) (TextCell (device_id b))),
           (''device_type'', replicate (length (rows df)) (TextCell (device_type b))),
           (''label'', map IntCell (label_values df))])"
  unfolding aggregate_features_def roll_frame_def min_periods_30 add_suffix_def feature_columns_def Let_def
  by (simp add: assms WINDOW_SIZE_def)















section \<open>Properties of the normalizer in main\<close>

lemma aggregate_features_names:
  assumes "aggregate_features df = Inr agg"
  shows "map fst agg = agg_names"
proof (cases "rows df")
  case Nil
  with assms show ?thesis by (simp add: aggregate_features_def)
next
  case (Cons b bs)
  from assms show ?thesis
    unfolding aggregate_features_explicit[OF Cons] agg_names_def by auto
qed

lemma numcols_names:
  assumes "map fst df = agg_names"
  shows "numcols df = take 20 (tl agg_names)"
  unfolding numcols_def assms by code_simp

lemma length_select_columns:
  assumes "map fst df = agg_names"
  shows "length (select_columns df (take 20 (tl agg_names))) = 20"
proof -
  have "length (filter (\<lambda>(name, col). P name) d) = length (filter P (map fst d))" for P and d :: dataframe
    by (induction d) auto
  then have "length (select_columns df (take 20 (tl agg_names)))
      = length (filter (\<lambda>n. n \<in> set (take 20 (tl agg_names))) (map fst df))"
    by (simp add: select_columns_def)
  also have "\<dots> = 20" unfolding assms by code_simp
  finally show ?thesis .
qed

lemma all_values_length: "all_values cs = Inr vs \<Longrightarrow> length vs = length cs"
  by (induction cs arbitrary: vs) (auto split: sum.splits)

lemma frame_rows_width:
  "frame_rows df is = Inr X \<Longrightarrow> \<forall>r \<in> set X. length r = length df"
proof (induction "is" arbitrary: X)
  case Nil
  then show ?case by simp
next
  case (Cons i "is")
  from Cons.prems obtain r rs where
    r: "all_values (map (\<lambda>(name, col). col ! i) df) = Inr r"
    and rs: "frame_rows df is = Inr rs" and X: "X = r # rs"
    by (auto split: sum.splits)
  from all_values_length[OF r] have "length r = length df" by simp
  with Cons.IH[OF rs] X show ?case by simp
qed

lemma frame_values_width:
  assumes "frame_values df = Inr X"
  shows "X = [] \<or> n_features X = length df"
proof (cases X)
  case Nil
  then show ?thesis by simp
next
  case (Cons r rs)
  with frame_rows_width[OF assms[unfolded frame_values_def]] show ?thesis
    by (simp add: n_features_def)
qed

lemma append_rows_names:
  "length a = length b \<Longrightarrow> map fst (append_rows a b) = map fst a"
proof (induction a arbitrary: b)
  case Nil
  then show ?case by (simp add: append_rows_def)
next
  case (Cons x a)
  then obtain y b' where "b = y # b'" by (cases b) auto
  with Cons show ?case by (cases x; cases y) (simp add: append_rows_def)
qed

lemma fold_append_rows_names:
  assumes "\<forall>g \<in> set fs. map fst g = N" "map fst f = N"
  shows "map fst (fold (\<lambda>g acc. append_rows acc g) fs f) = N"
  using assms
proof (induction fs arbitrary: f)
  case Nil
  then show ?case by simp
next
  case (Cons g fs)
  then have "map fst g = N" by simp
  with Cons.prems(2) have "length f = length g" by (metis length_map)
  then have "map fst (append_rows f g) = N"
    using Cons.prems(2) by (simp add: append_rows_names)
  with Cons show ?case by simp
qed

lemma pd_concat_names:
  assumes "ar \<noteq> []" "\<forall>a \<in> set ar. map fst a = N"
  shows "map fst (pd_concat ar) = N"
proof -
  from assms(1) obtain f fs where ar: "ar = f # fs" by (cases ar) auto
  with assms(2) show ?thesis
    by (simp add: pd_concat_def fold_append_rows_names)
qed

lemma feature_values_rows:
  "list_all (\<lambda>r. length r = 4) (feature_values df)"
  by (simp add: feature_values_def cells_def list_all_iff)

lemma aggregate_features_nonempty:
  "aggregate_features df = Inr agg \<Longrightarrow> feature_values df \<noteq> []"
  by (cases "rows df") (simp_all add: aggregate_features_def feature_values_def)

lemma main_loop_inv:
  "main_loop devices acc = Inr acc' \<Longrightarrow> loop_inv acc \<Longrightarrow> loop_inv acc'"
proof (induction devices arbitrary: acc)
  case Nil
  then show ?case by simp
next
  case (Cons df rest)
  obtain cfs aw al ar where acc: "acc = (cfs, aw, al, ar)" by (cases acc) auto
  from Cons.prems(1) acc obtain windows win_labels agg where
    ew: "extract_windows df WINDOW_SIZE MIN_VALID_RATIO = Inr (windows, win_labels)"
    and ag: "aggregate_features df = Inr agg"
    and rest: "main_loop rest (cfs @ [feature_values df],
                  if windows \<noteq> [] then aw @ [windows] else aw,
                  if windows \<noteq> [] then al @ [win_labels] else al,
                  ar @ [agg]) = Inr acc'"
    by (auto split: sum.splits prod.splits)
  have "loop_inv (cfs @ [feature_values df],
                  if windows \<noteq> [] then aw @ [windows] else aw,
                  if windows \<noteq> [] then al @ [win_labels] else al,
                  ar @ [agg])"
    using Cons.prems(2) acc aggregate_features_names[OF ag] aggregate_features_nonempty[OF ag]
          feature_values_rows[of df]
    by (simp add: loop_inv_def)
  from Cons.IH[OF rest this] show ?case .
qed

lemma n_features_concat:
  assumes "cfs \<noteq> []" "list_all (\<lambda>m. m \<noteq> [] \<and> list_all (\<lambda>r. length r = k) m) cfs"
  shows "concat cfs \<noteq> [] \<and> n_features (concat cfs) = k"
proof -
  from assms obtain m ms where "cfs = m # ms" by (cases cfs) auto
  with assms(2) obtain r rs where "m = r # rs" "length r = k"
    by (cases m) auto
  with \<open>cfs = m # ms\<close> show ?thesis by (simp add: n_features_def)
qed

lemma imputer_fit_length:
  "imputer_fit X = Inr imp \<Longrightarrow> length (statistics imp) = n_features X"
  by (auto simp: imputer_fit_def columns_def split: if_splits)

lemma aggregates_rejected:
  assumes inv: "loop_inv (cfs, aw, al, ar)" and ne: "cfs \<noteq> []"
      and fit: "imputer_fit (concat cfs) = Inr imp"
      and X: "frame_values (select_columns (pd_concat ar) (numcols (pd_concat ar))) = Inr X"
  shows "\<exists>e. imputer_transform imp X = Inl e"
proof -
  from inv have len: "length cfs = length ar"
    and names: "\<forall>a \<in> set ar. map fst a = agg_names"
    and rows: "list_all (\<lambda>m. m \<noteq> [] \<and> list_all (\<lambda>r. length r = 4) m) cfs"
    by (simp_all add: loop_inv_def list_all_iff)
  from ne len have "ar \<noteq> []" by auto
  then have n: "map fst (pd_concat ar) = agg_names"
    using names by (rule pd_concat_names)
  from n_features_concat[OF ne rows] imputer_fit_length[OF fit]
  have four: "length (statistics imp) = 4" by simp
  from X have "X = [] \<or> n_features X = 20"
    unfolding numcols_names[OF n] using frame_values_width length_select_columns[OF n] by metis
  with four show ?thesis by (auto simp: imputer_transform_def)
qed

text \<open>
  For no list of device frames does \<open>main\<close> reach its end: whenever every earlier step
  succeeds, the transform of the aggregate table is rejected.
\<close>

lemma main_never_completes: "\<exists>e. main devices = Inl e"
proof (rule ccontr)
  assume "\<not> (\<exists>e. main devices = Inl e)"
  then obtain out where m: "main devices = Inr out" by (cases "main devices") auto
  from m obtain cfs aw al ar where
    loop: "main_loop devices ([], [], [], []) = Inr (cfs, aw, al, ar)"
    by (auto simp: main_def split: sum.splits)
  have inv: "loop_inv (cfs, aw, al, ar)"
    by (rule main_loop_inv[OF loop]) (simp add: loop_inv_def)
  from m loop have ne: "cfs \<noteq> []"
    by (auto simp: main_def split: if_splits)
  from m loop ne obtain imp where fit: "imputer_fit (concat cfs) = Inr imp"
    by (auto simp: main_def Let_def split: sum.splits)
  from m loop ne fit obtain X X_imp where
    "frame_values (select_columns (pd_concat ar) (numcols (pd_concat ar))) = Inr X"
    "imputer_transform imp X = Inr X_imp"
    by (auto simp: main_def Let_def split: sum.splits)
  with aggregates_rejected[OF inv ne fit] show False by auto
qed

lemma sixty_extract:
  "extract_windows sixty_frame WINDOW_SIZE MIN_VALID_RATIO
     = Inr ([replicate 60 (cells demo_bin)], [0])"
  unfolding WINDOW_SIZE_def MIN_VALID_RATIO_def by code_simp

lemma sixty_fit:
  "imputer_fit (concat [feature_values sixty_frame]) = Inr sixty_imputer"
  by code_simp

lemma sixty_impute:
  "imputer_transform sixty_imputer (concat [feature_values sixty_frame]) = Inr sixty_imputed"
  by code_simp

lemma sixty_scaler_fit:
  "scaler_fit sixty_imputed = Inr sixty_scaler"
  by code_simp

lemma sixty_windows_impute:
  "imputer_transform sixty_imputer (concat (concat [[replicate 60 (cells demo_bin)]]))
     = Inr sixty_imputed"
  by code_simp

lemma sixty_scale:
  "scaler_transform sixty_scaler sixty_imputed = Inr sixty_scaled"
  by code_simp

lemma sixty_reshape:
  "reshape3 (length (concat [[replicate 60 (cells demo_bin)]])) WINDOW_SIZE (length AGG_FEATURES)
     sixty_scaled = Inr [sixty_scaled]"
  by code_simp

lemma main_steps:
  assumes "main_loop devices ([], [], [], []) = Inr (cfs, aw, al, ar)" "cfs \<noteq> []"
    "imputer_fit (concat cfs) = Inr imp"
    "imputer_transform imp (concat cfs) = Inr cimp"
    "scaler_fit cimp = Inr sc"
    "imputer_transform imp (concat (concat aw)) = Inr wimp"
    "scaler_transform sc wimp = Inr wsc"
    "reshape3 (length (concat aw)) WINDOW_SIZE (length AGG_FEATURES) wsc = Inr w3"
    "frame_values (select_columns (pd_concat ar) (numcols (pd_concat ar))) = Inr X"
    "imputer_transform imp X = Inl e"
  shows "main devices = Inl e"
  by (simp add: main_def Let_def assms)

lemma all_values_float:
  assumes "list_all is_float cs"
  shows "\<exists>vs. all_values cs = Inr vs"
  using assms
proof (induction cs)
  case Nil
  then show ?case by simp
next
  case (Cons c cs)
  then obtain vs where "all_values cs = Inr vs" by auto
  moreover from Cons.prems obtain x where "c = FloatCell x"
    by (cases c) (auto simp: is_float_def)
  ultimately show ?case by (simp add: cell_value_def)
qed

lemma frame_rows_float:
  assumes "\<forall>i \<in> set is. list_all is_float (map (\<lambda>(name, col). col ! i) df)"
  shows "\<exists>X. frame_rows df is = Inr X \<and> length X = length is"
  using assms
proof (induction "is")
  case Nil
  then show ?case by simp
next
  case (Cons i "is")
  then obtain X where "frame_rows df is = Inr X" "length X = length is" by auto
  moreover from Cons.prems all_values_float
  obtain r where "all_values (map (\<lambda>(name, col). col ! i) df) = Inr r" by fastforce
  ultimately show ?case by simp
qed

lemma frame_values_float:
  assumes "list_all (\<lambda>(name, col). list_all is_float col \<and> length col = k) df" "df \<noteq> []"
  shows "\<exists>X. frame_values df = Inr X \<and> length X = k"
proof -
  from assms obtain n c rest where df: "df = (n, c) # rest" by (cases df) auto
  with assms(1) have k: "nrows df = k" by (simp add: nrows_def)
  have "\<forall>i \<in> set [0..<k]. list_all is_float (map (\<lambda>(name, col). col ! i) df)"
    using assms(1) by (auto simp: list_all_iff)
  from frame_rows_float[OF this] show ?thesis
    by (simp add: frame_values_def k)
qed

lemma select_columns_float:
  assumes "rows df = b # bs" "aggregate_features df = Inr agg"
  shows "list_all (\<lambda>(name, col). list_all is_float col \<and> length col = length (rows df))
           (select_columns agg (take 20 (tl agg_names)))"
proof -
  from assms(2) have agg: "agg = projr (aggregate_features df)" by simp
  show ?thesis
    unfolding agg aggregate_features_explicit[OF assms(1)]
    by (simp add: select_columns_def agg_names_def length_rolling list_all_iff is_float_def)
qed

lemma sixty_aggregates:
  assumes "aggregate_features sixty_frame = Inr agg"
  shows "\<exists>X. frame_values (select_columns (pd_concat [agg]) (numcols (pd_concat [agg]))) = Inr X
            \<and> X \<noteq> [] \<and> n_features X = 20"
proof -
  have r: "rows sixty_frame = demo_bin # replicate 59 demo_bin"
    by (simp add: sixty_frame_def numeral_eq_Suc)
  have n: "map fst agg = agg_names" by (rule aggregate_features_names[OF assms])
  have pc: "pd_concat [agg] = agg" by (simp add: pd_concat_def)
  have len: "length (select_columns agg (take 20 (tl agg_names))) = 20"
    by (rule length_select_columns[OF n])
  then have ne: "select_columns agg (take 20 (tl agg_names)) \<noteq> []" by auto
  from frame_values_float[OF select_columns_float[OF r assms] ne]
  obtain X where X: "frame_values (select_columns agg (take 20 (tl agg_names))) = Inr X"
    and l: "length X = length (rows sixty_frame)" by blast
  from l have "X \<noteq> []" by (auto simp: sixty_frame_def)
  moreover from this frame_values_width[OF X] len have "n_features X = 20" by simp
  ultimately show ?thesis using X by (simp add: pc numcols_names[OF n])
qed

text \<open>
  C8, at a failing input: one device with 60 populated bins. The fit and the transform
  of the single window succeed; the transform of the aggregate table raises the
  ValueError of a feature-count mismatch, because the imputer was fitted on the 4 channel
  columns and is handed the 20 statistic columns.
\<close>

theorem main_fails_on_aggregates:
  "main [sixty_frame] = Inl feature_count_error"
proof -
  have r: "rows sixty_frame = demo_bin # replicate 59 demo_bin"
    by (simp add: sixty_frame_def numeral_eq_Suc)
  from aggregate_features_explicit[OF r]
  obtain agg where agg: "aggregate_features sixty_frame = Inr agg" by blast
  have loop: "main_loop [sixty_frame] ([], [], [], [])
      = Inr ([feature_values sixty_frame], [[replicate 60 (cells demo_bin)]], [[0]], [agg])"
    by (simp add: sixty_extract agg)
  from sixty_aggregates[OF agg] obtain X where
    X: "frame_values (select_columns (pd_concat [agg]) (numcols (pd_concat [agg]))) = Inr X"
    and ne: "X \<noteq> []" and nf: "n_features X = 20" by blast
  have rej: "imputer_transform sixty_imputer X = Inl feature_count_error"
    using ne nf by (simp add: imputer_transform_def sixty_imputer_def)
  show ?thesis
    by (rule main_steps[OF loop _ sixty_fit sixty_impute sixty_scaler_fit sixty_windows_impute
          sixty_scale sixty_reshape X rej]) simp
qed

end
